theory Spec2Isabelle
  imports Main "HOL-Library.AList" "HOL-Library.Sublist"
begin

section \<open>Processes, exceptions and the trace of effects\<close>

text \<open>
  The two scripts \<^verbatim>\<open>scripts/deploy-web.py\<close> and \<^verbatim>\<open>scripts/web-deploy-example.py\<close> are
  sequential pipelines of external calls. Each Python function is embedded as a function
  from the trace of effects performed so far to a result and the extended trace. The
  result is \<open>Inl\<close> of the exception that left the function (\<^verbatim>\<open>sys.exit(n)\<close> raises
  \<^verbatim>\<open>SystemExit(n)\<close>) or \<open>Inr\<close> of the returned value.

  Strings are lists of characters; a character stands for a code point below 256.
\<close>

record proc_result =
  returncode :: int
  stdout :: string
  stderr :: string

text \<open>
  What a library call can raise, and what can leave a function of the scripts: one of
  these, or the \<^verbatim>\<open>SystemExit\<close> of a \<^verbatim>\<open>sys.exit\<close>, which only the scripts raise.
\<close>

datatype error =
    KeyboardInterrupt
  | CalledProcessError proc_result
  | FileNotFoundError string
  | ClientError string
  | NoCredentialsError string
  | ValueError string
  | OtherException string

datatype exc =
    SystemExit int
  | Raised error

text \<open>The \<^verbatim>\<open>InvalidationBatch\<close> argument of the CloudFront \<^verbatim>\<open>create_invalidation\<close> call.\<close>

record invalidation_batch =
  paths_quantity :: nat
  paths_items :: "string list"
  caller_reference :: string

text \<open>
  Observable effects. \<open>Print\<close> is \<^verbatim>\<open>print\<close>; \<open>Log level message\<close> is \<^verbatim>\<open>WebDeployer.log\<close>
  (the time stamp it prefixes is left out); \<open>Shell command cwd check\<close> is
  \<^verbatim>\<open>subprocess.run(command, shell=True, cwd=cwd, check=check)\<close>; \<open>Exec cmd cwd capture\<close> is
  \<^verbatim>\<open>subprocess.run(cmd, cwd=cwd, capture_output=capture, check=True)\<close>; the three boto3
  calls carry their arguments and the profile of the session.
\<close>

datatype event =
    Print string
  | Log string string
  | Chdir string
  | Shell string "string option" bool
  | Exec "string list" "string option" bool
  | StsGetCallerIdentity "string option"
  | DescribeStacks string "string option"
  | CreateInvalidation string invalidation_batch "string option"
  | SetEnv string string
  | Sleep nat
  | HttpGet string nat

type_synonym trace = "event list"

type_synonym 'a prog = "trace \<Rightarrow> (exc + 'a) \<times> trace"

definition return_p :: "'a \<Rightarrow> 'a prog" where
  "return_p a = (\<lambda>tr. (Inr a, tr))"

definition raise_p :: "exc \<Rightarrow> 'a prog" where
  "raise_p e = (\<lambda>tr. (Inl e, tr))"

definition emit :: "event \<Rightarrow> unit prog" where
  "emit ev = (\<lambda>tr. (Inr (), tr @ [ev]))"

text \<open>An external call: the world answers at the current trace, and the call is recorded.\<close>

definition lift_error :: "error + 'a \<Rightarrow> exc + 'a" where
  "lift_error r = (case r of Inl e \<Rightarrow> Inl (Raised e) | Inr a \<Rightarrow> Inr a)"

definition call :: "(trace \<Rightarrow> error + 'a) \<Rightarrow> event \<Rightarrow> 'a prog" where
  "call f ev = (\<lambda>tr. (lift_error (f tr), tr @ [ev]))"

text \<open>A read of the environment that has no effect of its own (a file-system test).\<close>

definition query :: "(trace \<Rightarrow> 'a) \<Rightarrow> 'a prog" where
  "query f = (\<lambda>tr. (Inr (f tr), tr))"

text \<open>The same for a read that may raise.\<close>

definition ask :: "(trace \<Rightarrow> error + 'a) \<Rightarrow> 'a prog" where
  "ask f = (\<lambda>tr. (lift_error (f tr), tr))"

definition bind_p :: "'a prog \<Rightarrow> ('a \<Rightarrow> 'b prog) \<Rightarrow> 'b prog" where
  "bind_p m f = (\<lambda>tr. case m tr of (Inl e, tr') \<Rightarrow> (Inl e, tr') | (Inr a, tr') \<Rightarrow> f a tr')"

definition then_p :: "'a prog \<Rightarrow> 'b prog \<Rightarrow> 'b prog" where
  "then_p m k = bind_p m (\<lambda>_. k)"

definition when_p :: "bool \<Rightarrow> unit prog \<Rightarrow> unit prog" where
  "when_p c m = (if c then m else return_p ())"

text \<open>
  \<^verbatim>\<open>try: m except ...\<close>: the handler returns \<open>Some\<close> of the except-branch for the
  exceptions that a clause matches and \<open>None\<close> for those that propagate.
\<close>

definition catch_p :: "'a prog \<Rightarrow> (exc \<Rightarrow> 'a prog option) \<Rightarrow> 'a prog" where
  "catch_p m h = (\<lambda>tr. case m tr of
       (Inl e, tr') \<Rightarrow> (case h e of Some k \<Rightarrow> k tr' | None \<Rightarrow> (Inl e, tr'))
     | (Inr a, tr') \<Rightarrow> (Inr a, tr'))"

text \<open>\<^verbatim>\<open>except Exception\<close> matches everything but \<^verbatim>\<open>SystemExit\<close> and \<^verbatim>\<open>KeyboardInterrupt\<close>.\<close>

fun is_Exception :: "exc \<Rightarrow> bool" where
  "is_Exception (SystemExit n) = False"
| "is_Exception (Raised KeyboardInterrupt) = False"
| "is_Exception (Raised e) = True"

text \<open>
  How the process ends: a returned \<^verbatim>\<open>main\<close> ends with status 0, \<^verbatim>\<open>SystemExit(n)\<close> with
  status \<open>n\<close>, and any other exception that nothing catches ends the interpreter with a
  traceback and a status different from 0.
\<close>

fun nonzero_exit :: "exc + 'a \<Rightarrow> bool" where
  "nonzero_exit (Inr a) = False"
| "nonzero_exit (Inl (SystemExit n)) = (n \<noteq> 0)"
| "nonzero_exit (Inl e) = True"

text \<open>\<^verbatim>\<open>subprocess.run(..., check=check)\<close> on top of the bare run the world answers.\<close>

definition subprocess_check :: "bool \<Rightarrow> error + proc_result \<Rightarrow> error + proc_result" where
  "subprocess_check check r = (case r of
       Inl e \<Rightarrow> Inl e
     | Inr res \<Rightarrow> if check \<and> returncode res \<noteq> 0 then Inl (CalledProcessError res) else Inr res)"

subsection \<open>Text helpers of the Python library\<close>

definition digit_char :: "nat \<Rightarrow> char" where
  "digit_char d = char_of (48 + d)"

fun str_nat :: "nat \<Rightarrow> string" where
  "str_nat n = (if n < 10 then [digit_char n] else str_nat (n div 10) @ [digit_char (n mod 10)])"

declare str_nat.simps [simp del]

definition str_int :: "int \<Rightarrow> string" where
  "str_int i = (if i < 0 then CHR ''-'' # str_nat (nat (- i)) else str_nat (nat i))"

text \<open>\<^verbatim>\<open>str.isspace\<close> on one character, for the code points below 256.\<close>

definition is_space :: "char \<Rightarrow> bool" where
  "is_space c = (let n = of_char c :: nat in
     (9 \<le> n \<and> n \<le> 13) \<or> (28 \<le> n \<and> n \<le> 32) \<or> n = 133 \<or> n = 160)"

definition strip :: "string \<Rightarrow> string" where
  "strip s = rev (dropWhile is_space (rev (dropWhile is_space s)))"

text \<open>\<^verbatim>\<open>s.split('=', 1)\<close>: one piece when there is no \<^verbatim>\<open>=\<close>, else the text before and after
  the first one.\<close>

definition split_eq1 :: "string \<Rightarrow> string list" where
  "split_eq1 s = (if CHR ''='' \<in> set s
     then [takeWhile (\<lambda>c. c \<noteq> CHR ''='') s, tl (dropWhile (\<lambda>c. c \<noteq> CHR ''='') s)]
     else [s])"

text \<open>\<^verbatim>\<open>os.path.dirname\<close> and \<^verbatim>\<open>os.path.join\<close> of two parts, on POSIX paths.\<close>

definition dirname :: "string \<Rightarrow> string" where
  "dirname p = (let head = rev (dropWhile (\<lambda>c. c \<noteq> CHR ''/'') (rev p)) in
     if head \<noteq> [] \<and> \<not> list_all (\<lambda>c. c = CHR ''/'') head
     then rev (dropWhile (\<lambda>c. c = CHR ''/'') (rev head)) else head)"

definition path_join :: "string \<Rightarrow> string \<Rightarrow> string" where
  "path_join a b = (if prefix ''/'' b then b
     else if a = [] \<or> last a = CHR ''/'' then a @ b else a @ ''/'' @ b)"

text \<open>The character U+2713 of the success messages, as the bytes \<^verbatim>\<open>print\<close> writes.\<close>

definition check_mark :: string where
  "check_mark = [CHR 0xE2, CHR 0x9C, CHR 0x93]"

text \<open>\<^verbatim>\<open>f"{x}"\<close> of a value that may be \<^verbatim>\<open>None\<close>.\<close>

definition str_opt :: "string option \<Rightarrow> string" where
  "str_opt x = (case x of None \<Rightarrow> ''None'' | Some s \<Rightarrow> s)"

text \<open>Truthiness of an optional string: \<^verbatim>\<open>None\<close> and \<^verbatim>\<open>''\<close> are false.\<close>

definition truthy :: "string option \<Rightarrow> bool" where
  "truthy x = (case x of None \<Rightarrow> False | Some s \<Rightarrow> s \<noteq> [])"

section \<open>The environment of a run\<close>

text \<open>
  Everything outside the scripts is a parameter: the answers of the AWS API, of the
  commands run, of the file system and of the JSON decoder. Each answer may depend on the
  trace so far, so that the same command can answer differently later in the run.
  \<open>Inl e\<close> is the exception the library raises.

  \<^item> \<open>describe_stacks\<close> answers with the \<^verbatim>\<open>'Stacks'\<close> entry of the response (\<open>None\<close> when
    the key is absent), each stack given by its \<^verbatim>\<open>'Outputs'\<close> entry (\<open>None\<close> when absent),
    a list of \<^verbatim>\<open>OutputKey\<close>/\<^verbatim>\<open>OutputValue\<close> pairs.
  \<^item> \<open>shell_run\<close> and \<open>subprocess_run\<close> are \<^verbatim>\<open>subprocess.run\<close> without \<^verbatim>\<open>check\<close>.
  \<^item> \<open>open_lines\<close> is \<^verbatim>\<open>open(path)\<close> followed by iteration over the lines.
  \<^item> The four \<open>decode\<close> fields are \<^verbatim>\<open>json.loads\<close> followed by the subscripts the caller
    applies to the decoded value, with the exception either of them raises.
\<close>

record identity =
  account :: string
  user_id :: "string option"

record distribution =
  dist_id :: "string option"
  dist_domain_name :: "string option"
  dist_aliases :: "string list"

record world =
  exc_text :: "error \<Rightarrow> string"
  script_file :: string
  getpid :: nat
  hash_str :: "string \<Rightarrow> int"
  sts_get_caller_identity :: "trace \<Rightarrow> string option \<Rightarrow> error + identity"
  describe_stacks :: "trace \<Rightarrow> string \<Rightarrow> string option \<Rightarrow> error + (string \<times> string) list option list option"
  create_invalidation :: "trace \<Rightarrow> string \<Rightarrow> invalidation_batch \<Rightarrow> string option \<Rightarrow> error + string"
  shell_run :: "trace \<Rightarrow> string \<Rightarrow> string option \<Rightarrow> error + proc_result"
  subprocess_run :: "trace \<Rightarrow> string list \<Rightarrow> string option \<Rightarrow> error + proc_result"
  path_exists :: "trace \<Rightarrow> string \<Rightarrow> bool"
  listdir :: "trace \<Rightarrow> string \<Rightarrow> error + string list"
  open_lines :: "trace \<Rightarrow> string \<Rightarrow> error + string list"
  decode_outputs :: "string \<Rightarrow> error + (string \<times> string) list"
  decode_distributions :: "string \<Rightarrow> error + distribution list"
  decode_invalidation_id :: "string \<Rightarrow> error + string"
  decode_invalidation_status :: "string \<Rightarrow> error + string"
  requests_available :: bool
  http_get :: "trace \<Rightarrow> string \<Rightarrow> nat \<Rightarrow> error + int"

section \<open>scripts/deploy-web.py\<close>

record args =
  args_environment :: string
  args_profile :: string
  skip_build :: bool
  skip_invalidation :: bool

definition run_command :: "world \<Rightarrow> string \<Rightarrow> string option \<Rightarrow> bool \<Rightarrow> proc_result prog" where
  "run_command w command cwd check =
     then_p (emit (Print (''Running: '' @ command)))
    (bind_p (call (\<lambda>tr. subprocess_check check (shell_run w tr command cwd)) (Shell command cwd check))
      (\<lambda>result.
     then_p (when_p (stdout result \<noteq> []) (emit (Print (stdout result))))
    (then_p (when_p (stderr result \<noteq> [] \<and> returncode result \<noteq> 0)
              (emit (Print (''ERROR: '' @ stderr result))))
    (return_p result))))"

text \<open>The dictionary built by the loop over \<^verbatim>\<open>stack['Outputs']\<close>, in insertion order.\<close>

definition outputs_dict :: "(string \<times> string) list \<Rightarrow> (string \<times> string) list" where
  "outputs_dict outs = fold (\<lambda>(k, v). AList.update k v) outs []"

definition response_outputs ::
    "(string \<times> string) list option list option \<Rightarrow> (string \<times> string) list" where
  "response_outputs response = (case response of
       Some (stack # rest) \<Rightarrow> (case stack of Some outs \<Rightarrow> outputs_dict outs | None \<Rightarrow> [])
     | _ \<Rightarrow> [])"

definition get_stack_outputs :: "world \<Rightarrow> string \<Rightarrow> string option \<Rightarrow> (string \<times> string) list prog" where
  "get_stack_outputs w stack_name profile =
     catch_p
       (bind_p (call (\<lambda>tr. describe_stacks w tr stack_name profile) (DescribeStacks stack_name profile))
          (\<lambda>response. return_p (response_outputs response)))
       (\<lambda>e. case e of
            Raised (ClientError m) \<Rightarrow>
              Some (then_p (emit (Print (''Error getting stack outputs: '' @ exc_text w (ClientError m))))
                           (return_p []))
          | _ \<Rightarrow> None)"

definition build_frontend :: "world \<Rightarrow> unit prog" where
  "build_frontend w =
     then_p (emit (Print ''\<newline>=== Building Frontend ===''))
    (then_p (emit (Chdir (dirname (dirname (script_file w)))))
    (bind_p (run_command w ''npm run build:web'' None True) (\<lambda>result.
       if returncode result \<noteq> 0
       then then_p (emit (Print ''Frontend build failed!'')) (raise_p (SystemExit 1))
       else emit (Print (check_mark @ '' Frontend build completed'')))))"

definition aws_command :: "string option \<Rightarrow> string" where
  "aws_command profile =
     ''aws s3 sync'' @ (if truthy profile then '' --profile '' @ str_opt profile else '''')"

definition sync_cmd :: "string \<Rightarrow> string \<Rightarrow> string option \<Rightarrow> string" where
  "sync_cmd bucket_name dist_path profile =
     aws_command profile @ '' '' @ dist_path @ '' s3://'' @ bucket_name
       @ '' --delete --exact-timestamps''"

definition no_cache_cmd :: "string \<Rightarrow> string option \<Rightarrow> string" where
  "no_cache_cmd bucket_name profile =
     aws_command profile @ '' s3:///'' @ bucket_name @ ''/index.html s3://'' @ bucket_name
       @ ''/index.html --cache-control '' @ [CHR 0x27]
       @ ''no-cache, no-store, must-revalidate'' @ [CHR 0x27]"

definition sync_to_s3 :: "world \<Rightarrow> string \<Rightarrow> string \<Rightarrow> string option \<Rightarrow> unit prog" where
  "sync_to_s3 w bucket_name dist_path profile =
     then_p (emit (Print (''\<newline>=== Syncing to S3: '' @ bucket_name @ '' ==='')))
    (bind_p (run_command w (sync_cmd bucket_name dist_path profile) None True) (\<lambda>result.
       if returncode result \<noteq> 0
       then then_p (emit (Print ''S3 sync failed!'')) (raise_p (SystemExit 1))
       else
         then_p (run_command w (no_cache_cmd bucket_name profile) None False)
                (emit (Print (check_mark @ '' S3 sync completed'')))))"

definition wildcard_batch :: "world \<Rightarrow> string \<Rightarrow> invalidation_batch" where
  "wildcard_batch w distribution_id =
     \<lparr>paths_quantity = 1, paths_items = [''/*''],
      caller_reference = str_int (hash_str w (distribution_id @ ''-'' @ str_nat (getpid w)))\<rparr>"

definition invalidate_cloudfront :: "world \<Rightarrow> string \<Rightarrow> string option \<Rightarrow> unit prog" where
  "invalidate_cloudfront w distribution_id profile =
     then_p (emit (Print (''\<newline>=== Invalidating CloudFront: '' @ distribution_id @ '' ==='')))
    (catch_p
       (bind_p (call (\<lambda>tr. create_invalidation w tr distribution_id
                              (wildcard_batch w distribution_id) profile)
                     (CreateInvalidation distribution_id (wildcard_batch w distribution_id) profile))
          (\<lambda>invalidation_id.
             emit (Print (check_mark @ '' CloudFront invalidation created: '' @ invalidation_id))))
       (\<lambda>e. case e of
            Raised (ClientError m) \<Rightarrow>
              Some (emit (Print (''CloudFront invalidation failed: '' @ exc_text w (ClientError m))))
          | _ \<Rightarrow> None))"

text \<open>
  The loop of \<^verbatim>\<open>inject_environment_variables\<close> over the lines of \<^verbatim>\<open>.env.{environment}\<close>:
  \<^verbatim>\<open>key, value = line.split('=', 1)\<close> raises \<^verbatim>\<open>ValueError\<close> when the split gives one piece.
\<close>

fun load_env_lines :: "string list \<Rightarrow> (string \<times> string) list \<Rightarrow> exc + (string \<times> string) list" where
  "load_env_lines [] env_vars = Inr env_vars"
| "load_env_lines (raw # rest) env_vars =
     (let line = strip raw in
      if line \<noteq> [] \<and> \<not> prefix ''#'' line
      then (case split_eq1 line of
              [key, val] \<Rightarrow> load_env_lines rest (AList.update key val env_vars)
            | _ \<Rightarrow> Inl (Raised (ValueError ''not enough values to unpack (expected 2, got 1)'')))
      else load_env_lines rest env_vars)"

text \<open>
  \<^verbatim>\<open>os.environ[key] = value\<close> raises \<^verbatim>\<open>ValueError\<close> for a name that is empty or contains
  \<^verbatim>\<open>=\<close>, and for a name or value with a NUL character.
\<close>

definition putenv_ok :: "string \<Rightarrow> string \<Rightarrow> bool" where
  "putenv_ok key val \<longleftrightarrow>
     key \<noteq> [] \<and> CHR ''='' \<notin> set key \<and> CHR 0x00 \<notin> set key \<and> CHR 0x00 \<notin> set val"

fun set_environ :: "(string \<times> string) list \<Rightarrow> unit prog" where
  "set_environ [] = return_p ()"
| "set_environ ((key, val) # rest) =
     (if putenv_ok key val
      then then_p (emit (SetEnv key val))
          (then_p (emit (Print (''  '' @ key @ ''='' @ val)))
          (set_environ rest))
      else raise_p (Raised (ValueError ''illegal environment variable name'')))"

definition default_env_vars :: "string \<Rightarrow> (string \<times> string) list" where
  "default_env_vars environment =
     [(''VITE_AWS_REGION'', ''us-west-2''),
      (''NODE_ENV'', if environment = ''prod'' then ''production'' else ''development'')]"

text \<open>\<^verbatim>\<open>env_file = Path(f".env.{environment}")\<close>\<close>

definition env_file :: "string \<Rightarrow> string" where
  "env_file environment = ''.env.'' @ environment"

definition load_env_vars :: "world \<Rightarrow> string \<Rightarrow> (string \<times> string) list prog" where
  "load_env_vars w environment =
     bind_p (query (\<lambda>tr. path_exists w tr (env_file environment))) (\<lambda>found.
       if found
       then then_p (emit (Print (''Loading environment from '' @ env_file environment)))
           (bind_p (ask (\<lambda>tr. open_lines w tr (env_file environment))) (\<lambda>lines.
              (\<lambda>tr. (load_env_lines lines (default_env_vars environment), tr))))
       else return_p (default_env_vars environment))"

definition inject_environment_variables :: "world \<Rightarrow> string \<Rightarrow> unit prog" where
  "inject_environment_variables w environment =
     then_p (emit (Print (''\<newline>=== Setting Environment Variables for '' @ environment @ '' ==='')))
    (bind_p (load_env_vars w environment) (\<lambda>env_vars.
     then_p (set_environ env_vars)
            (emit (Print (check_mark @ '' Environment variables set'')))))"

definition web_stack_name :: "args \<Rightarrow> string" where
  "web_stack_name args = ''EC2Manager-Web-'' @ args_environment args"

definition dist_path :: string where
  "dist_path = ''apps/web/dist''"

text \<open>
  \<^verbatim>\<open>main\<close> from the test \<^verbatim>\<open>if not outputs\<close> on (lines 187 to 232), given the dictionary
  that \<^verbatim>\<open>get_stack_outputs\<close> returned.
\<close>

definition main_with_outputs :: "world \<Rightarrow> args \<Rightarrow> (string \<times> string) list \<Rightarrow> unit prog" where
  "main_with_outputs w args outputs =
     (if outputs = []
      then then_p (emit (Print (''ERROR: Could not get outputs from stack '' @ web_stack_name args)))
          (then_p (emit (Print ''Make sure the web stack is deployed first!''))
          (raise_p (SystemExit 1)))
      else
        let bucket_name = map_of outputs ''S3BucketName'';
            distribution_id = map_of outputs ''DistributionId'';
            cloudfront_url = map_of outputs ''CloudFrontURL''
        in
        if \<not> truthy bucket_name \<or> \<not> truthy distribution_id
        then then_p (emit (Print ''ERROR: Missing required stack outputs (S3BucketName, DistributionId)''))
                    (raise_p (SystemExit 1))
        else
           then_p (emit (Print (''S3 Bucket: '' @ str_opt bucket_name)))
          (then_p (emit (Print (''CloudFront Distribution: '' @ str_opt distribution_id)))
          (then_p (emit (Print (''CloudFront URL: '' @ str_opt cloudfront_url)))
          (then_p (emit (Print ''''))
          (then_p (inject_environment_variables w (args_environment args))
          (then_p (if \<not> skip_build args then build_frontend w
                   else emit (Print ''Skipping frontend build...''))
          (bind_p (query (\<lambda>tr. path_exists w tr dist_path)) (\<lambda>found.
             if \<not> found
             then then_p (emit (Print (''ERROR: Build output directory '' @ dist_path @ '' does not exist!'')))
                 (then_p (emit (Print ''Run build first or use --skip-build option carefully.''))
                 (raise_p (SystemExit 1)))
             else
                then_p (sync_to_s3 w (str_opt bucket_name) dist_path (Some (args_profile args)))
               (then_p (if \<not> skip_invalidation args
                        then invalidate_cloudfront w (str_opt distribution_id) (Some (args_profile args))
                        else emit (Print ''Skipping CloudFront invalidation...''))
               (then_p (emit (Print ''\<newline>=== Deployment Complete ===''))
               (then_p (emit (Print (''Your app is available at: '' @ str_opt cloudfront_url)))
               (then_p (emit (Print ''''))
                       (emit (Print ''Note: CloudFront changes may take 5-15 minutes to propagate globally.''))))))))))))))"

definition verify_credentials :: "world \<Rightarrow> args \<Rightarrow> unit prog" where
  "verify_credentials w args =
     catch_p
       (bind_p (call (\<lambda>tr. sts_get_caller_identity w tr (Some (args_profile args)))
                     (StsGetCallerIdentity (Some (args_profile args))))
          (\<lambda>ident.
             then_p (emit (Print (''AWS Account: '' @ account ident)))
            (then_p (emit (Print (''AWS User: '' @ (case user_id ident of Some u \<Rightarrow> u | None \<Rightarrow> ''Unknown''))))
                    (emit (Print '''')))))
       (\<lambda>e. case e of
            Raised (ClientError m) \<Rightarrow>
              Some (then_p (emit (Print (''ERROR: AWS credentials not available: ''
                                         @ exc_text w (ClientError m))))
                           (raise_p (SystemExit 1)))
          | Raised (NoCredentialsError m) \<Rightarrow>
              Some (then_p (emit (Print (''ERROR: AWS credentials not available: ''
                                         @ exc_text w (NoCredentialsError m))))
                           (raise_p (SystemExit 1)))
          | _ \<Rightarrow> None)"

text \<open>\<^verbatim>\<open>main\<close>, after \<^verbatim>\<open>argparse\<close> has accepted the command line.\<close>

definition main :: "world \<Rightarrow> args \<Rightarrow> unit prog" where
  "main w args =
     then_p (emit (Print ''=== EC2 Manager Frontend Deployment ===''))
    (then_p (emit (Print (''Environment: '' @ args_environment args)))
    (then_p (emit (Print (''AWS Profile: '' @ args_profile args)))
    (then_p (emit (Print ''''))
    (then_p (verify_credentials w args)
    (then_p (emit (Print (''Getting outputs from stack: '' @ web_stack_name args)))
    (bind_p (get_stack_outputs w (web_stack_name args) (Some (args_profile args)))
            (main_with_outputs w args)))))))"

section \<open>scripts/web-deploy-example.py\<close>

record WebDeployer =
  environment :: string
  profile :: string
  region :: string
  stack_name :: string
  project_root :: string
  frontend_dir :: string
  build_output_dir :: string

text \<open>\<^verbatim>\<open>__init__\<close>; \<open>script_file\<close> is \<^verbatim>\<open>os.path.abspath(__file__)\<close>.\<close>

definition WebDeployer_init :: "world \<Rightarrow> string \<Rightarrow> string option \<Rightarrow> string option \<Rightarrow> WebDeployer" where
  "WebDeployer_init w env prof reg =
     (let root = dirname (dirname (script_file w));
          frontend = path_join root ''frontend''
      in \<lparr>environment = env,
          profile = (if truthy prof then str_opt prof else ''jnicamzn-sso-ec2''),
          region = (if truthy reg then str_opt reg else ''us-west-2''),
          stack_name = ''EbsPerf-'' @ env @ ''-Stack'',
          project_root = root,
          frontend_dir = frontend,
          build_output_dir = path_join frontend ''out''\<rparr>)"

definition log :: "string \<Rightarrow> string \<Rightarrow> unit prog" where
  "log message level = emit (Log level message)"

text \<open>\<^verbatim>\<open>" ".join(cmd)\<close>\<close>

fun join_sp :: "string list \<Rightarrow> string" where
  "join_sp [] = []"
| "join_sp [x] = x"
| "join_sp (x # y # ys) = x @ '' '' @ join_sp (y # ys)"

definition WebDeployer_run_command ::
    "world \<Rightarrow> string list \<Rightarrow> string option \<Rightarrow> bool \<Rightarrow> proc_result prog" where
  "WebDeployer_run_command w cmd cwd capture_output =
     then_p (if truthy cwd
             then log (''Running: '' @ join_sp cmd @ '' (in '' @ str_opt cwd @ '')'') ''INFO''
             else log (''Running: '' @ join_sp cmd) ''INFO'')
    (catch_p
       (call (\<lambda>tr. subprocess_check True (subprocess_run w tr cmd cwd)) (Exec cmd cwd capture_output))
       (\<lambda>e. case e of
            Raised (CalledProcessError r) \<Rightarrow>
              Some (then_p (log (''Command failed: '' @ join_sp cmd) ''ERROR'')
                   (then_p (when_p capture_output
                              (then_p (log (''stdout: '' @ stdout r) ''ERROR'')
                                      (log (''stderr: '' @ stderr r) ''ERROR'')))
                   (raise_p (SystemExit 1))))
          | _ \<Rightarrow> None))"

fun check_commands :: "world \<Rightarrow> string list \<Rightarrow> unit prog" where
  "check_commands w [] = return_p ()"
| "check_commands w (cmd # rest) =
     then_p (catch_p
               (then_p (call (\<lambda>tr. subprocess_check True (subprocess_run w tr [cmd, ''--version''] None))
                             (Exec [cmd, ''--version''] None True))
                       (return_p ()))
               (\<lambda>e. if (case e of Raised (CalledProcessError r) \<Rightarrow> True
                           | Raised (FileNotFoundError m) \<Rightarrow> True | _ \<Rightarrow> False)
                    then Some (then_p (log (''Required command '' @ [CHR 0x27] @ cmd @ [CHR 0x27]
                                             @ '' not found. Please install it.'') ''ERROR'')
                                      (raise_p (SystemExit 1)))
                    else None))
            (check_commands w rest)"

definition validate_prerequisites :: "world \<Rightarrow> WebDeployer \<Rightarrow> unit prog" where
  "validate_prerequisites w self =
     then_p (log ''Validating prerequisites...'' ''INFO'')
    (then_p (check_commands w [''aws'', ''npm''])
    (bind_p (query (\<lambda>tr. path_exists w tr (frontend_dir self))) (\<lambda>found.
       if \<not> found
       then then_p (log (''Frontend directory not found: '' @ frontend_dir self) ''ERROR'')
                   (raise_p (SystemExit 1))
       else
         bind_p (query (\<lambda>tr. path_exists w tr (path_join (frontend_dir self) ''package.json'')))
           (\<lambda>found_json.
              if \<not> found_json
              then then_p (log (''package.json not found: ''
                                 @ path_join (frontend_dir self) ''package.json'') ''ERROR'')
                          (raise_p (SystemExit 1))
              else log ''Prerequisites validated successfully'' ''INFO''))))"

fun log_outputs :: "(string \<times> string) list \<Rightarrow> unit prog" where
  "log_outputs [] = return_p ()"
| "log_outputs ((key, val) # rest) =
     then_p (log (''  '' @ key @ '': '' @ val) ''INFO'') (log_outputs rest)"

definition describe_stacks_cmd :: "WebDeployer \<Rightarrow> string list" where
  "describe_stacks_cmd self =
     [''aws'', ''cloudformation'', ''describe-stacks'',
      ''--stack-name'', stack_name self,
      ''--query'', ''Stacks[0].Outputs'',
      ''--output'', ''json'',
      ''--profile'', profile self,
      ''--region'', region self]"

definition WebDeployer_get_stack_outputs :: "world \<Rightarrow> WebDeployer \<Rightarrow> (string \<times> string) list prog" where
  "WebDeployer_get_stack_outputs w self =
     then_p (log (''Getting stack outputs for '' @ stack_name self @ ''...'') ''INFO'')
    (bind_p
       (catch_p
          (bind_p (WebDeployer_run_command w (describe_stacks_cmd self) None True) (\<lambda>result.
             ask (\<lambda>tr. decode_outputs w (stdout result))))
          (\<lambda>e. case e of
               Raised (CalledProcessError r) \<Rightarrow>
                 Some (then_p (log (''Failed to get stack outputs for '' @ stack_name self
                                     @ ''. Make sure the stack is deployed.'') ''ERROR'')
                              (raise_p (SystemExit 1)))
             | _ \<Rightarrow> None))
       (\<lambda>outputs_list.
          then_p (log ''Available stack outputs:'' ''INFO'')
         (then_p (log_outputs (outputs_dict outputs_list))
                 (return_p (outputs_dict outputs_list)))))"

definition s3_ls_cmd :: "WebDeployer \<Rightarrow> string \<Rightarrow> string list" where
  "s3_ls_cmd self bucket_name =
     [''aws'', ''s3'', ''ls'', ''s3://'' @ bucket_name @ ''/'',
      ''--profile'', profile self,
      ''--region'', region self]"

definition verify_bucket_exists :: "world \<Rightarrow> WebDeployer \<Rightarrow> string \<Rightarrow> unit prog" where
  "verify_bucket_exists w self bucket_name =
     then_p (log (''Verifying bucket exists: '' @ bucket_name) ''INFO'')
    (catch_p
       (then_p (WebDeployer_run_command w (s3_ls_cmd self bucket_name) None True)
               (log (''Bucket verified: '' @ bucket_name) ''INFO''))
       (\<lambda>e. case e of
            Raised (CalledProcessError r) \<Rightarrow>
              Some (then_p (log (''Bucket does not exist or is not accessible: '' @ bucket_name) ''ERROR'')
                           (raise_p (SystemExit 1)))
          | _ \<Rightarrow> None))"

text \<open>The value of the first item of the dictionary whose key contains \<open>part\<close>.\<close>

definition find_output :: "string \<Rightarrow> (string \<times> string) list \<Rightarrow> string option" where
  "find_output part outputs = map_option snd (find (\<lambda>(key, val). sublist part key) outputs)"

text \<open>The fallback \<^verbatim>\<open>expected_bucket\<close> of \<^verbatim>\<open>extract_deployment_info\<close>.\<close>

definition expected_bucket :: "WebDeployer \<Rightarrow> string" where
  "expected_bucket self = ''ebs-perf-'' @ environment self @ ''-frontend''"

definition extract_deployment_info ::
    "world \<Rightarrow> WebDeployer \<Rightarrow> (string \<times> string) list \<Rightarrow> (string \<times> string) prog" where
  "extract_deployment_info w self outputs =
     then_p (log ''Extracting deployment information from stack outputs...'' ''INFO'')
    (bind_p
       (if \<not> truthy (find_output ''FrontendBucketName'' outputs)
        then then_p (log ''Frontend bucket name not found in stack outputs, trying fallback naming pattern'' ''INFO'')
            (then_p (log (''Using fallback bucket name: '' @ expected_bucket self) ''INFO'')
            (then_p (verify_bucket_exists w self (expected_bucket self))
                    (return_p (expected_bucket self))))
        else return_p (str_opt (find_output ''FrontendBucketName'' outputs)))
       (\<lambda>frontend_bucket.
          if \<not> truthy (find_output ''DistributionDomainName'' outputs)
          then then_p (log ''CloudFront domain name not found in stack outputs'' ''ERROR'')
              (then_p (log (''Expected output key containing '' @ [CHR 0x27]
                             @ ''DistributionDomainName'' @ [CHR 0x27]) ''ERROR'')
                      (raise_p (SystemExit 1)))
          else
            then_p (log (''Found S3 bucket: '' @ frontend_bucket) ''INFO'')
           (then_p (log (''Found CloudFront domain: ''
                          @ str_opt (find_output ''DistributionDomainName'' outputs)) ''INFO'')
                   (return_p (frontend_bucket, str_opt (find_output ''DistributionDomainName'' outputs))))))"

text \<open>\<^verbatim>\<open>os.path.exists(d)\<close> followed, when it holds, by \<^verbatim>\<open>os.listdir(d)\<close>: the files found,
  or \<open>[]\<close> for a directory that does not exist.\<close>

definition existing_files :: "world \<Rightarrow> string \<Rightarrow> string list prog" where
  "existing_files w d =
     bind_p (query (\<lambda>tr. path_exists w tr d)) (\<lambda>found.
       if found then ask (\<lambda>tr. listdir w tr d) else return_p [])"

definition WebDeployer_build_frontend :: "world \<Rightarrow> WebDeployer \<Rightarrow> unit prog" where
  "WebDeployer_build_frontend w self =
     then_p (log ''Building frontend application...'' ''INFO'')
    (bind_p (existing_files w (build_output_dir self)) (\<lambda>build_files.
       if build_files \<noteq> []
       then then_p (log (''Build output already exists with '' @ str_nat (length build_files)
                          @ '' files. Skipping build.'') ''INFO'')
                   (log (''Using existing build output in: '' @ build_output_dir self) ''INFO'')
       else
          then_p (log ''Installing dependencies...'' ''INFO'')
         (then_p (WebDeployer_run_command w [''npm'', ''ci''] (Some (frontend_dir self)) False)
         (then_p (log ''Building application...'' ''INFO'')
         (bind_p
            (catch_p
               (then_p (WebDeployer_run_command w [''npm'', ''run'', ''build''] (Some (frontend_dir self)) False)
                       (return_p False))
               (\<lambda>e. case e of
                    SystemExit n \<Rightarrow>
                      Some (bind_p (existing_files w (build_output_dir self)) (\<lambda>found_files.
                              if found_files \<noteq> []
                              then then_p (log ''Build failed, but found existing build output. Continuing with existing files.'' ''WARNING'')
                                          (return_p True)
                              else then_p (log ''Build failed and no existing build output found. Cannot deploy.'' ''ERROR'')
                                          (raise_p (SystemExit 1))))
                  | _ \<Rightarrow> None))
            (\<lambda>returned.
               if returned then return_p ()
               else
                 bind_p (query (\<lambda>tr. path_exists w tr (build_output_dir self))) (\<lambda>found.
                   if \<not> found
                   then then_p (log (''Build output directory not found: '' @ build_output_dir self) ''ERROR'')
                               (raise_p (SystemExit 1))
                   else
                     bind_p (ask (\<lambda>tr. listdir w tr (build_output_dir self))) (\<lambda>files.
                       if files = []
                       then then_p (log (''Build output directory is empty: '' @ build_output_dir self) ''ERROR'')
                                   (raise_p (SystemExit 1))
                       else log (''Frontend build completed successfully. Output in: ''
                                  @ build_output_dir self) ''INFO''))))))))"

definition s3_sync_cmd :: "WebDeployer \<Rightarrow> string \<Rightarrow> string list" where
  "s3_sync_cmd self bucket_name =
     [''aws'', ''s3'', ''sync'',
      build_output_dir self @ ''/'',
      ''s3://'' @ bucket_name @ ''/'',
      ''--delete'',
      ''--profile'', profile self,
      ''--region'', region self]"

definition WebDeployer_sync_to_s3 :: "world \<Rightarrow> WebDeployer \<Rightarrow> string \<Rightarrow> unit prog" where
  "WebDeployer_sync_to_s3 w self bucket_name =
     then_p (log (''Syncing files to S3 bucket: '' @ bucket_name) ''INFO'')
    (then_p (WebDeployer_run_command w (s3_sync_cmd self bucket_name) None False)
            (log ''S3 sync completed successfully'' ''INFO''))"

definition list_distributions_cmd :: "WebDeployer \<Rightarrow> string list" where
  "list_distributions_cmd self =
     [''aws'', ''cloudfront'', ''list-distributions'',
      ''--output'', ''json'',
      ''--profile'', profile self]"

text \<open>The search loop of \<^verbatim>\<open>get_distribution_id\<close>; \<^verbatim>\<open>dist["Id"]\<close> raises \<^verbatim>\<open>KeyError\<close> when the
  matching distribution has no \<^verbatim>\<open>Id\<close>.\<close>

fun search_distributions :: "distribution list \<Rightarrow> string \<Rightarrow> string prog" where
  "search_distributions [] domain_name =
     then_p (log (''No CloudFront distribution found for domain: '' @ domain_name) ''ERROR'')
            (raise_p (SystemExit 1))"
| "search_distributions (dist # rest) domain_name =
     (if dist_domain_name dist = Some domain_name
      then (case dist_id dist of
              None \<Rightarrow> raise_p (Raised (OtherException ''KeyError: Id''))
            | Some i \<Rightarrow> then_p (log (''Found distribution ID: '' @ i) ''INFO'') (return_p i))
      else if domain_name \<in> set (dist_aliases dist)
      then (case dist_id dist of
              None \<Rightarrow> raise_p (Raised (OtherException ''KeyError: Id''))
            | Some i \<Rightarrow> then_p (log (''Found distribution ID for custom domain: '' @ i) ''INFO'')
                               (return_p i))
      else search_distributions rest domain_name)"

definition get_distribution_id :: "world \<Rightarrow> WebDeployer \<Rightarrow> string \<Rightarrow> string prog" where
  "get_distribution_id w self domain_name =
     then_p (log (''Finding CloudFront distribution ID for domain: '' @ domain_name) ''INFO'')
    (bind_p (WebDeployer_run_command w (list_distributions_cmd self) None True) (\<lambda>result.
     bind_p (ask (\<lambda>tr. decode_distributions w (stdout result))) (\<lambda>items.
       search_distributions items domain_name)))"

definition create_invalidation_cmd :: "WebDeployer \<Rightarrow> string \<Rightarrow> string list" where
  "create_invalidation_cmd self distribution_id =
     [''aws'', ''cloudfront'', ''create-invalidation'',
      ''--distribution-id'', distribution_id,
      ''--paths'', ''/*'',
      ''--output'', ''json'',
      ''--profile'', profile self]"

definition WebDeployer_create_invalidation :: "world \<Rightarrow> WebDeployer \<Rightarrow> string \<Rightarrow> string prog" where
  "WebDeployer_create_invalidation w self distribution_id =
     then_p (log (''Creating CloudFront invalidation for distribution: '' @ distribution_id) ''INFO'')
    (bind_p (WebDeployer_run_command w (create_invalidation_cmd self distribution_id) None True)
       (\<lambda>result.
     bind_p (ask (\<lambda>tr. decode_invalidation_id w (stdout result))) (\<lambda>invalidation_id.
     then_p (log (''Invalidation created: '' @ invalidation_id) ''INFO'')
            (return_p invalidation_id))))"

definition get_invalidation_cmd :: "WebDeployer \<Rightarrow> string \<Rightarrow> string \<Rightarrow> string list" where
  "get_invalidation_cmd self distribution_id invalidation_id =
     [''aws'', ''cloudfront'', ''get-invalidation'',
      ''--distribution-id'', distribution_id,
      ''--id'', invalidation_id,
      ''--output'', ''json'',
      ''--profile'', profile self]"

definition max_wait_time :: nat where
  "max_wait_time = 300"

definition poll_interval :: nat where
  "poll_interval = 10"

text \<open>The body of the \<^verbatim>\<open>while\<close> loop up to the test of the status.\<close>

definition poll_status :: "world \<Rightarrow> WebDeployer \<Rightarrow> string \<Rightarrow> string \<Rightarrow> string prog" where
  "poll_status w self distribution_id invalidation_id =
     bind_p (WebDeployer_run_command w (get_invalidation_cmd self distribution_id invalidation_id) None True)
       (\<lambda>result.
     bind_p (ask (\<lambda>tr. decode_invalidation_status w (stdout result))) (\<lambda>status.
     then_p (log (''Invalidation status: '' @ status) ''INFO'')
            (return_p status)))"

text \<open>The \<^verbatim>\<open>while elapsed_time < max_wait_time\<close> loop and the two statements after it.\<close>

function wait_loop :: "world \<Rightarrow> WebDeployer \<Rightarrow> string \<Rightarrow> string \<Rightarrow> nat \<Rightarrow> unit prog" where
  "wait_loop w self distribution_id invalidation_id elapsed_time tr =
     (if elapsed_time < max_wait_time
      then (case poll_status w self distribution_id invalidation_id tr of
              (Inl e, tr') \<Rightarrow> (Inl e, tr')
            | (Inr status, tr') \<Rightarrow>
                if status = ''Completed''
                then log ''Invalidation completed successfully'' ''INFO'' tr'
                else wait_loop w self distribution_id invalidation_id (elapsed_time + poll_interval)
                       (tr' @ [Sleep poll_interval]))
      else then_p (log (''Invalidation did not complete within '' @ str_nat max_wait_time
                         @ '' seconds'') ''ERROR'')
                  (raise_p (SystemExit 1)) tr)"
  by pat_completeness auto
termination
  by (relation "measure (\<lambda>(w, self, d, i, elapsed_time, tr). max_wait_time - elapsed_time)")
     (auto simp: poll_interval_def)

declare wait_loop.simps [simp del]

definition wait_for_invalidation :: "world \<Rightarrow> WebDeployer \<Rightarrow> string \<Rightarrow> string \<Rightarrow> unit prog" where
  "wait_for_invalidation w self distribution_id invalidation_id =
     then_p (log (''Waiting for invalidation '' @ invalidation_id @ '' to complete...'') ''INFO'')
            (wait_loop w self distribution_id invalidation_id 0)"

definition verify_deployment :: "world \<Rightarrow> WebDeployer \<Rightarrow> string \<Rightarrow> unit prog" where
  "verify_deployment w self cloudfront_domain =
     then_p (log (''Verifying deployment at https://'' @ cloudfront_domain @ ''/'') ''INFO'')
       (if \<not> requests_available w
        then log ''requests module not available - skipping HTTP verification'' ''WARNING''
        else
          catch_p
            (bind_p (call (\<lambda>tr. http_get w tr (''https://'' @ cloudfront_domain @ ''/'') 30)
                          (HttpGet (''https://'' @ cloudfront_domain @ ''/'') 30))
               (\<lambda>status_code.
                  if status_code = 200
                  then log ''Deployment verification successful - site is accessible'' ''INFO''
                  else log (''Deployment verification warning - got HTTP '' @ str_int status_code)
                           ''WARNING''))
            (\<lambda>e. case e of
                 Raised err \<Rightarrow>
                   if is_Exception e
                   then Some (log (''Deployment verification warning - '' @ exc_text w err) ''WARNING'')
                   else None
               | _ \<Rightarrow> None))"

definition deploy :: "world \<Rightarrow> WebDeployer \<Rightarrow> unit prog" where
  "deploy w self =
     then_p (log (''Starting deployment for environment: '' @ environment self) ''INFO'')
    (then_p (log (''Using AWS profile: '' @ profile self) ''INFO'')
    (then_p (log (''Using AWS region: '' @ region self) ''INFO'')
    (then_p (log (''Target CDK stack: '' @ stack_name self) ''INFO'')
    (then_p (validate_prerequisites w self)
    (bind_p (WebDeployer_get_stack_outputs w self) (\<lambda>outputs.
     bind_p (extract_deployment_info w self outputs) (\<lambda>(bucket_name, cloudfront_domain).
     then_p (WebDeployer_build_frontend w self)
    (then_p (WebDeployer_sync_to_s3 w self bucket_name)
    (bind_p (get_distribution_id w self cloudfront_domain) (\<lambda>distribution_id.
     bind_p (WebDeployer_create_invalidation w self distribution_id) (\<lambda>invalidation_id.
     then_p (wait_for_invalidation w self distribution_id invalidation_id)
    (then_p (verify_deployment w self cloudfront_domain)
    (then_p (log ''Deployment completed successfully!'' ''INFO'')
            (log (''Site URL: https://'' @ cloudfront_domain @ ''/'') ''INFO''))))))))))))))"

text \<open>\<^verbatim>\<open>main\<close> of the script, after \<^verbatim>\<open>argparse\<close> has accepted \<^verbatim>\<open>--env\<close>, \<^verbatim>\<open>--profile\<close> and
  \<^verbatim>\<open>--region\<close>.\<close>

definition example_main :: "world \<Rightarrow> string \<Rightarrow> string option \<Rightarrow> string option \<Rightarrow> unit prog" where
  "example_main w env prof reg =
     catch_p (deploy w (WebDeployer_init w env prof reg))
       (\<lambda>e. case e of
            Raised KeyboardInterrupt \<Rightarrow>
              Some (then_p (emit (Print ''\<newline>Deployment interrupted by user''))
                           (raise_p (SystemExit 1)))
          | Raised err \<Rightarrow>
              Some (then_p (emit (Print (''\<newline>Deployment failed: '' @ exc_text w err)))
                           (raise_p (SystemExit 1)))
          | SystemExit n \<Rightarrow> None)"

section \<open>Observations on traces\<close>

text \<open>An upload attempt: an \<^verbatim>\<open>aws s3 sync\<close> command handed to the shell or run directly.\<close>

fun is_upload :: "event \<Rightarrow> bool" where
  "is_upload (Shell command cwd check) = prefix ''aws s3 sync'' command"
| "is_upload (Exec cmd cwd capture) = prefix [''aws'', ''s3'', ''sync''] cmd"
| "is_upload e = False"

text \<open>An invocation of the build tool: \<^verbatim>\<open>npm\<close> as the program of a command.\<close>

fun is_npm :: "event \<Rightarrow> bool" where
  "is_npm (Shell command cwd check) = prefix ''npm'' command"
| "is_npm (Exec cmd cwd capture) = prefix [''npm''] cmd"
| "is_npm e = False"

text \<open>A status query of the poll loop.\<close>

fun is_poll :: "event \<Rightarrow> bool" where
  "is_poll (Exec cmd cwd capture) = prefix [''aws'', ''cloudfront'', ''get-invalidation''] cmd"
| "is_poll e = False"

fun is_sleep :: "event \<Rightarrow> bool" where
  "is_sleep (Sleep n) = True"
| "is_sleep e = False"

text \<open>A request for a cache invalidation, through the API or through the command line.\<close>

fun is_invalidation_request :: "event \<Rightarrow> bool" where
  "is_invalidation_request (CreateInvalidation d b p) = True"
| "is_invalidation_request (Exec cmd cwd capture) =
     prefix [''aws'', ''cloudfront'', ''create-invalidation''] cmd"
| "is_invalidation_request e = False"

text \<open>The paths an invalidation request names: the \<^verbatim>\<open>Items\<close> of the batch, or the arguments
  that follow \<^verbatim>\<open>--paths\<close> up to the next option.\<close>

fun requested_paths :: "event \<Rightarrow> string list" where
  "requested_paths (CreateInvalidation d b p) = paths_items b"
| "requested_paths (Exec cmd cwd capture) =
     takeWhile (\<lambda>a. \<not> prefix ''--'' a) (drop 1 (dropWhile (\<lambda>a. a \<noteq> ''--paths'') cmd))"
| "requested_paths e = []"

section \<open>Sample environments\<close>

definition ok_result :: proc_result where
  "ok_result = \<lparr>returncode = 0, stdout = '''', stderr = ''''\<rparr>"

definition failed_result :: proc_result where
  "failed_result = \<lparr>returncode = 1, stdout = '''', stderr = ''denied''\<rparr>"

text \<open>Every call succeeds, the stack has all outputs, the build directory has one file,
  there is no \<^verbatim>\<open>.env\<close> file, and the invalidation is complete at the first poll.\<close>

definition quiet_world :: world where
  "quiet_world =
     \<lparr>exc_text = (\<lambda>e. ''error''),
      script_file = ''/repo/scripts/deploy.py'',
      getpid = 4242,
      hash_str = (\<lambda>s. 7),
      sts_get_caller_identity = (\<lambda>tr p. Inr \<lparr>account = ''123456789012'', user_id = Some ''AIDAEXAMPLE''\<rparr>),
      describe_stacks = (\<lambda>tr n p. Inr (Some [Some
         [(''S3BucketName'', ''site-bucket''), (''DistributionId'', ''E1ABC''),
          (''CloudFrontURL'', ''https://d1.cloudfront.net'')]])),
      create_invalidation = (\<lambda>tr d b p. Inr ''I2XYZ''),
      shell_run = (\<lambda>tr c cwd. Inr ok_result),
      subprocess_run = (\<lambda>tr c cwd. Inr ok_result),
      path_exists = (\<lambda>tr p. \<not> prefix ''.env.'' p),
      listdir = (\<lambda>tr d. Inr [''index.html'']),
      open_lines = (\<lambda>tr p. Inr []),
      decode_outputs = (\<lambda>s. Inr [(''FrontendBucketName'', ''site-bucket''),
                                   (''DistributionDomainName'', ''d1.cloudfront.net'')]),
      decode_distributions = (\<lambda>s. Inr [\<lparr>dist_id = Some ''E1ABC'',
                                         dist_domain_name = Some ''d1.cloudfront.net'',
                                         dist_aliases = []\<rparr>]),
      decode_invalidation_id = (\<lambda>s. Inr ''I2XYZ''),
      decode_invalidation_status = (\<lambda>s. Inr ''Completed''),
      requests_available = False,
      http_get = (\<lambda>tr u t. Inr 200)\<rparr>"

definition dev_args :: args where
  "dev_args = \<lparr>args_environment = ''dev'', args_profile = ''jnicamzn-sso-ec2'',
               skip_build = False, skip_invalidation = False\<rparr>"

definition dev_deployer :: WebDeployer where
  "dev_deployer = WebDeployer_init quiet_world ''dev'' None None"

section \<open>Well-behaved programs\<close>

text \<open>
  \<open>behaves P m\<close>: whatever the trace it starts from, \<open>m\<close> only appends events, each of
  them satisfies \<open>P\<close>, and \<open>m\<close> never leaves with \<^verbatim>\<open>SystemExit(0)\<close>.
\<close>

definition behaves :: "(event \<Rightarrow> bool) \<Rightarrow> 'a prog \<Rightarrow> bool" where
  "behaves P m \<longleftrightarrow>
     (\<forall>tr. (\<exists>evs. snd (m tr) = tr @ evs \<and> list_all P evs) \<and> fst (m tr) \<noteq> Inl (SystemExit 0))"

text \<open>A stack-outputs dictionary without a usable bucket name or distribution identifier.\<close>

definition lacks_required_key :: "(string \<times> string) list \<Rightarrow> bool" where
  "lacks_required_key outputs \<longleftrightarrow>
     \<not> truthy (map_of outputs ''S3BucketName'') \<or> \<not> truthy (map_of outputs ''DistributionId'')"

text \<open>The commands a \<open>WebDeployer\<close> runs, with the directory and the capture flag of each.\<close>

inductive deployer_command :: "WebDeployer \<Rightarrow> string list \<Rightarrow> string option \<Rightarrow> bool \<Rightarrow> bool"
  for self :: WebDeployer where
  probe: "c = ''aws'' \<or> c = ''npm'' \<Longrightarrow> deployer_command self [c, ''--version''] None True"
| describe: "deployer_command self (describe_stacks_cmd self) None True"
| list_bucket:
    "deployer_command self (s3_ls_cmd self (expected_bucket self)) None True"
| npm_ci: "deployer_command self [''npm'', ''ci''] (Some (frontend_dir self)) False"
| npm_build: "deployer_command self [''npm'', ''run'', ''build''] (Some (frontend_dir self)) False"
| sync: "deployer_command self (s3_sync_cmd self b) None False"
| list_distributions: "deployer_command self (list_distributions_cmd self) None True"
| create: "deployer_command self (create_invalidation_cmd self d) None True"
| poll: "deployer_command self (get_invalidation_cmd self d i) None True"

definition deployer_event :: "WebDeployer \<Rightarrow> event \<Rightarrow> bool" where
  "deployer_event self e = (case e of
       Log level message \<Rightarrow> True
     | Print s \<Rightarrow> True
     | Sleep n \<Rightarrow> n = poll_interval
     | HttpGet url timeout \<Rightarrow> True
     | Exec cmd cwd capture \<Rightarrow> deployer_command self cmd cwd capture
     | _ \<Rightarrow> False)"

text \<open>
  \<open>deploy\<close> in two parts: the steps up to \<^verbatim>\<open>extract_deployment_info\<close> (steps 1 to 3), and
  the steps that follow, given the bucket and the domain.
\<close>

definition deploy_prefix :: "world \<Rightarrow> WebDeployer \<Rightarrow> (string \<times> string) prog" where
  "deploy_prefix w self =
     then_p (log (''Starting deployment for environment: '' @ environment self) ''INFO'')
    (then_p (log (''Using AWS profile: '' @ profile self) ''INFO'')
    (then_p (log (''Using AWS region: '' @ region self) ''INFO'')
    (then_p (log (''Target CDK stack: '' @ stack_name self) ''INFO'')
    (then_p (validate_prerequisites w self)
    (bind_p (WebDeployer_get_stack_outputs w self) (extract_deployment_info w self))))))"

definition deploy_rest :: "world \<Rightarrow> WebDeployer \<Rightarrow> string \<times> string \<Rightarrow> unit prog" where
  "deploy_rest w self = (\<lambda>(bucket_name, cloudfront_domain).
     then_p (WebDeployer_build_frontend w self)
    (then_p (WebDeployer_sync_to_s3 w self bucket_name)
    (bind_p (get_distribution_id w self cloudfront_domain) (\<lambda>distribution_id.
     bind_p (WebDeployer_create_invalidation w self distribution_id) (\<lambda>invalidation_id.
     then_p (wait_for_invalidation w self distribution_id invalidation_id)
    (then_p (verify_deployment w self cloudfront_domain)
    (then_p (log ''Deployment completed successfully!'' ''INFO'')
            (log (''Site URL: https://'' @ cloudfront_domain @ ''/'') ''INFO''))))))))"


text \<open>
  The lines of an environment file, as \<^verbatim>\<open>inject_environment_variables\<close> reads them: a
  content line is neither blank nor a comment; it is malformed when it has no \<^verbatim>\<open>=\<close>; the
  others assign the text after the first \<^verbatim>\<open>=\<close> to the text before it.
\<close>

definition content_line :: "string \<Rightarrow> bool" where
  "content_line raw \<longleftrightarrow> strip raw \<noteq> [] \<and> \<not> prefix ''#'' (strip raw)"

definition malformed_line :: "string \<Rightarrow> bool" where
  "malformed_line raw \<longleftrightarrow> content_line raw \<and> CHR ''='' \<notin> set (strip raw)"

fun env_file_assignments :: "string list \<Rightarrow> (string \<times> string) list" where
  "env_file_assignments [] = []"
| "env_file_assignments (raw # rest) =
     (if content_line raw \<and> CHR ''='' \<in> set (strip raw)
      then (takeWhile (\<lambda>c. c \<noteq> CHR ''='') (strip raw),
            tl (dropWhile (\<lambda>c. c \<noteq> CHR ''='') (strip raw))) # env_file_assignments rest
      else env_file_assignments rest)"

definition unpack_error :: exc where
  "unpack_error = Raised (ValueError ''not enough values to unpack (expected 2, got 1)'')"


text \<open>Measures of a trace: the seconds slept and the number of status queries.\<close>

fun sleep_seconds :: "event \<Rightarrow> nat" where
  "sleep_seconds (Sleep n) = n"
| "sleep_seconds e = 0"

definition total_sleep :: "trace \<Rightarrow> nat" where
  "total_sleep evs = sum_list (map sleep_seconds evs)"

definition poll_count :: "trace \<Rightarrow> nat" where
  "poll_count evs = length (filter is_poll evs)"

text \<open>The number of iterations left when the loop test is reached with \<open>elapsed_time\<close>.\<close>

function polls_left :: "nat \<Rightarrow> nat" where
  "polls_left elapsed_time =
     (if elapsed_time < max_wait_time then Suc (polls_left (elapsed_time + poll_interval)) else 0)"
  by pat_completeness auto
termination
  by (relation "measure (\<lambda>elapsed_time. max_wait_time - elapsed_time)") (auto simp: poll_interval_def)

declare polls_left.simps [simp del]


section \<open>More sample environments\<close>

definition denied_world :: world where
  "denied_world = quiet_world\<lparr>describe_stacks := (\<lambda>tr n p. Inl (ClientError ''AccessDenied''))\<rparr>"

definition empty_stack_world :: world where
  "empty_stack_world = quiet_world\<lparr>describe_stacks := (\<lambda>tr n p. Inr (Some [Some []]))\<rparr>"

definition no_distribution_world :: world where
  "no_distribution_world = quiet_world\<lparr>describe_stacks :=
     (\<lambda>tr n p. Inr (Some [Some [(''S3BucketName'', ''site-bucket'')]]))\<rparr>"

definition no_domain_world :: world where
  "no_domain_world = quiet_world\<lparr>decode_outputs :=
     (\<lambda>s. Inr [(''FrontendBucketName'', ''site-bucket'')])\<rparr>"

definition no_bucket_world :: world where
  "no_bucket_world = quiet_world\<lparr>decode_outputs :=
     (\<lambda>s. Inr [(''DistributionDomainName'', ''d1.cloudfront.net'')])\<rparr>"

definition no_bucket_denied_world :: world where
  "no_bucket_denied_world = no_bucket_world\<lparr>subprocess_run :=
     (\<lambda>tr cmd cwd. if prefix [''aws'', ''s3'', ''ls''] cmd then Inr failed_result else Inr ok_result)\<rparr>"


definition broken_env_world :: world where
  "broken_env_world = quiet_world\<lparr>path_exists := (\<lambda>tr p. True),
     open_lines := (\<lambda>tr p. Inr [''NODE_ENV=test'', ''# a comment'', ''BROKEN''])\<rparr>"


definition in_progress_world :: world where
  "in_progress_world = quiet_world\<lparr>decode_invalidation_status := (\<lambda>s. Inr ''InProgress'')\<rparr>"


definition override_env_world :: world where
  "override_env_world = quiet_world\<lparr>path_exists := (\<lambda>tr p. True),
     open_lines := (\<lambda>tr p. Inr [''NODE_ENV=test'', ''# a comment''])\<rparr>"

section \<open>Composition rules\<close>

lemmas prog_defs = return_p_def raise_p_def emit_def call_def query_def ask_def bind_p_def
  then_p_def when_p_def catch_p_def log_def lift_error_def

lemma behaves_return: "behaves P (return_p a)"
  by (simp add: behaves_def return_p_def)

lemma behaves_raise: "e \<noteq> SystemExit 0 \<Longrightarrow> behaves P (raise_p e)"
  by (simp add: behaves_def raise_p_def)

lemma behaves_emit: "P ev \<Longrightarrow> behaves P (emit ev)"
  by (simp add: behaves_def emit_def)

lemma behaves_log: "P (Log level message) \<Longrightarrow> behaves P (log message level)"
  by (simp add: log_def behaves_emit)

lemma lift_error_not_exit: "lift_error r \<noteq> Inl (SystemExit n)"
  by (simp add: lift_error_def split: sum.splits)

lemma behaves_call: "P ev \<Longrightarrow> behaves P (call f ev)"
  by (simp add: behaves_def call_def lift_error_not_exit)

lemma behaves_query: "behaves P (query f)"
  by (simp add: behaves_def query_def)

lemma behaves_ask: "behaves P (ask f)"
  by (simp add: behaves_def ask_def lift_error_not_exit)

lemma behaves_pure: "r \<noteq> Inl (SystemExit 0) \<Longrightarrow> behaves P (\<lambda>tr. (r, tr))"
  by (simp add: behaves_def)

lemma behaves_bind:
  assumes m: "behaves P m" and f: "\<And>a. behaves P (f a)"
  shows "behaves P (bind_p m f)"
  unfolding behaves_def
proof
  fix tr
  from m obtain evs where evs: "snd (m tr) = tr @ evs" "list_all P evs"
    and ne: "fst (m tr) \<noteq> Inl (SystemExit 0)"
    unfolding behaves_def by blast
  show "(\<exists>evs. snd (bind_p m f tr) = tr @ evs \<and> list_all P evs)
          \<and> fst (bind_p m f tr) \<noteq> Inl (SystemExit 0)"
  proof (cases "fst (m tr)")
    case (Inl e)
    then have "bind_p m f tr = (Inl e, tr @ evs)"
      using evs(1) by (cases "m tr") (simp add: bind_p_def)
    with evs(2) ne Inl show ?thesis by simp
  next
    case (Inr a)
    then have eq: "bind_p m f tr = f a (tr @ evs)"
      using evs(1) by (cases "m tr") (simp add: bind_p_def)
    from f [of a] obtain evs' where "snd (f a (tr @ evs)) = (tr @ evs) @ evs'" "list_all P evs'"
      and "fst (f a (tr @ evs)) \<noteq> Inl (SystemExit 0)"
      unfolding behaves_def by blast
    with evs(2) eq show ?thesis by (intro conjI exI [of _ "evs @ evs'"]) simp_all
  qed
qed

lemma behaves_then: "behaves P m \<Longrightarrow> behaves P k \<Longrightarrow> behaves P (then_p m k)"
  by (simp add: then_p_def behaves_bind)

lemma behaves_when: "behaves P m \<Longrightarrow> behaves P (when_p c m)"
  by (simp add: when_p_def behaves_return)

lemma behaves_catch:
  assumes m: "behaves P m" and h: "\<And>e k. h e = Some k \<Longrightarrow> behaves P k"
  shows "behaves P (catch_p m h)"
  unfolding behaves_def
proof
  fix tr
  from m obtain evs where evs: "snd (m tr) = tr @ evs" "list_all P evs"
    and ne: "fst (m tr) \<noteq> Inl (SystemExit 0)"
    unfolding behaves_def by blast
  show "(\<exists>evs. snd (catch_p m h tr) = tr @ evs \<and> list_all P evs)
          \<and> fst (catch_p m h tr) \<noteq> Inl (SystemExit 0)"
  proof (cases "fst (m tr)")
    case (Inr a)
    then have "catch_p m h tr = (Inr a, tr @ evs)"
      using evs(1) by (cases "m tr") (simp add: catch_p_def)
    with evs(2) show ?thesis by simp
  next
    case (Inl e)
    show ?thesis
    proof (cases "h e")
      case None
      with Inl have "catch_p m h tr = (Inl e, tr @ evs)"
        using evs(1) by (cases "m tr") (simp add: catch_p_def)
      with evs(2) ne Inl show ?thesis by simp
    next
      case (Some k)
      with Inl have eq: "catch_p m h tr = k (tr @ evs)"
        using evs(1) by (cases "m tr") (simp add: catch_p_def)
      from h [OF Some] obtain evs' where "snd (k (tr @ evs)) = (tr @ evs) @ evs'" "list_all P evs'"
        and "fst (k (tr @ evs)) \<noteq> Inl (SystemExit 0)"
        unfolding behaves_def by blast
      with evs(2) eq show ?thesis by (intro conjI exI [of _ "evs @ evs'"]) simp_all
    qed
  qed
qed

lemma behaves_if: "(c \<Longrightarrow> behaves P m) \<Longrightarrow> (\<not> c \<Longrightarrow> behaves P k) \<Longrightarrow> behaves P (if c then m else k)"
  by simp

lemmas behaves_intros = behaves_return behaves_raise behaves_emit behaves_log behaves_call
  behaves_query behaves_ask behaves_bind behaves_then behaves_when behaves_catch behaves_if

lemma behaves_trace: "behaves P m \<Longrightarrow> list_all P tr \<Longrightarrow> list_all P (snd (m tr))"
  unfolding behaves_def by (metis list_all_append)

lemma behaves_exit: "behaves P m \<Longrightarrow> fst (m tr) = Inl e \<Longrightarrow> nonzero_exit (Inl e :: exc + 'b)"
  unfolding behaves_def by (cases e) auto

lemma behaves_run_command:
  assumes "\<And>s. P (Print s)" and "P (Shell command cwd check)"
  shows "behaves P (run_command w command cwd check)"
  unfolding run_command_def by (intro behaves_intros) (simp_all add: assms)

lemma behaves_verify_credentials:
  assumes "\<And>s. P (Print s)" and "\<And>p. P (StsGetCallerIdentity p)"
  shows "behaves P (verify_credentials w args)"
  unfolding verify_credentials_def
  by (intro behaves_intros) (auto simp: assms split: exc.splits error.splits intro!: behaves_intros)

lemma behaves_get_stack_outputs:
  assumes "\<And>s. P (Print s)" and "\<And>n p. P (DescribeStacks n p)"
  shows "behaves P (get_stack_outputs w n p)"
  unfolding get_stack_outputs_def
  by (intro behaves_intros) (auto simp: assms split: exc.splits error.splits intro!: behaves_intros)

lemma load_env_lines_not_exit: "load_env_lines ls env \<noteq> Inl (SystemExit n)"
  by (induction ls arbitrary: env) (auto simp: Let_def split: list.splits)

lemma behaves_set_environ:
  assumes "\<And>s. P (Print s)" and "\<And>k v. P (SetEnv k v)"
  shows "behaves P (set_environ env)"
  by (induction env) (auto simp: assms intro!: behaves_intros)

lemma behaves_inject:
  assumes "\<And>s. P (Print s)" and "\<And>k v. P (SetEnv k v)"
  shows "behaves P (inject_environment_variables w env)"
  unfolding inject_environment_variables_def load_env_vars_def
  by (intro behaves_intros behaves_pure behaves_set_environ load_env_lines_not_exit) (simp_all add: assms)

lemma behaves_build_frontend:
  assumes "\<And>s. P (Print s)" and "\<And>d. P (Chdir d)" and "P (Shell ''npm run build:web'' None True)"
  shows "behaves P (build_frontend w)"
  unfolding build_frontend_def
  by (intro behaves_intros behaves_run_command) (simp_all add: assms)

lemma behaves_sync_to_s3:
  assumes "\<And>s. P (Print s)" and "P (Shell (sync_cmd bucket dist prof) None True)"
    and "P (Shell (no_cache_cmd bucket prof) None False)"
  shows "behaves P (sync_to_s3 w bucket dist prof)"
  unfolding sync_to_s3_def
  by (intro behaves_intros behaves_run_command) (simp_all add: assms)

lemma behaves_invalidate_cloudfront:
  assumes "\<And>s. P (Print s)" and "P (CreateInvalidation d (wildcard_batch w d) prof)"
  shows "behaves P (invalidate_cloudfront w d prof)"
  unfolding invalidate_cloudfront_def
  by (intro behaves_intros) (auto simp: assms split: exc.splits error.splits intro!: behaves_intros)

lemma behaves_main_with_outputs:
  assumes "\<And>s. P (Print s)" and "\<And>k v. P (SetEnv k v)" and "\<And>d. P (Chdir d)"
    and "\<not> skip_build args \<Longrightarrow> P (Shell ''npm run build:web'' None True)"
    and "\<And>b. P (Shell (sync_cmd b dist_path (Some (args_profile args))) None True)"
    and "\<And>b. P (Shell (no_cache_cmd b (Some (args_profile args))) None False)"
    and "\<And>d p. P (CreateInvalidation d (wildcard_batch w d) p)"
  shows "behaves P (main_with_outputs w args outputs)"
  unfolding main_with_outputs_def Let_def
  by (intro behaves_intros behaves_inject behaves_build_frontend behaves_sync_to_s3
        behaves_invalidate_cloudfront) (simp_all add: assms)

lemma behaves_main:
  assumes "\<And>s. P (Print s)" and "\<And>k v. P (SetEnv k v)" and "\<And>d. P (Chdir d)"
    and "\<And>p. P (StsGetCallerIdentity p)" and "\<And>n p. P (DescribeStacks n p)"
    and "\<not> skip_build args \<Longrightarrow> P (Shell ''npm run build:web'' None True)"
    and "\<And>b. P (Shell (sync_cmd b dist_path (Some (args_profile args))) None True)"
    and "\<And>b. P (Shell (no_cache_cmd b (Some (args_profile args))) None False)"
    and "\<And>d p. P (CreateInvalidation d (wildcard_batch w d) p)"
  shows "behaves P (main w args)"
  unfolding main_def
  by (intro behaves_intros behaves_verify_credentials behaves_get_stack_outputs
        behaves_main_with_outputs) (simp_all add: assms)


section \<open>deploy-web.py: the stack outputs\<close>

lemma get_stack_outputs_client_error:
  "describe_stacks w tr n p = Inl (ClientError m) \<Longrightarrow>
   get_stack_outputs w n p tr =
     (Inr [], tr @ [DescribeStacks n p, Print (''Error getting stack outputs: '' @ exc_text w (ClientError m))])"
  by (simp add: get_stack_outputs_def prog_defs)

lemma get_stack_outputs_returned:
  "describe_stacks w tr n p = Inr response \<Longrightarrow>
   get_stack_outputs w n p tr = (Inr (response_outputs response), tr @ [DescribeStacks n p])"
  by (simp add: get_stack_outputs_def prog_defs)

lemma main_with_outputs_empty:
  "main_with_outputs w args [] tr =
     (Inl (SystemExit 1),
      tr @ [Print (''ERROR: Could not get outputs from stack '' @ web_stack_name args),
            Print ''Make sure the web stack is deployed first!''])"
  by (simp add: main_with_outputs_def prog_defs)

lemma main_with_outputs_lacking:
  "lacks_required_key outputs \<Longrightarrow>
   \<exists>evs. main_with_outputs w args outputs tr = (Inl (SystemExit 1), tr @ evs) \<and> list_all (\<lambda>e. \<not> is_upload e) evs"
  by (simp add: main_with_outputs_def prog_defs lacks_required_key_def Let_def)

text \<open>main, split at the two calls that precede the test of the outputs\<close>
lemma main_unfold:
  "main w args tr =
     (case verify_credentials w args
             (tr @ [Print ''=== EC2 Manager Frontend Deployment ==='',
                    Print (''Environment: '' @ args_environment args),
                    Print (''AWS Profile: '' @ args_profile args), Print '''']) of
        (Inl e, tr1) \<Rightarrow> (Inl e, tr1)
      | (Inr u, tr1) \<Rightarrow>
         (case get_stack_outputs w (web_stack_name args) (Some (args_profile args))
                 (tr1 @ [Print (''Getting outputs from stack: '' @ web_stack_name args)]) of
            (Inl e, tr2) \<Rightarrow> (Inl e, tr2)
          | (Inr outputs, tr2) \<Rightarrow> main_with_outputs w args outputs tr2))"
  by (simp add: main_def then_p_def bind_p_def emit_def split: prod.splits sum.splits)

lemma get_stack_outputs_cases:
  assumes "get_stack_outputs w n p tr = (Inr outputs, tr')"
  shows "outputs = [] \<or> (\<exists>response. describe_stacks w tr n p = Inr response \<and> outputs = response_outputs response)"
  using assms by (auto simp: get_stack_outputs_def prog_defs split: sum.splits error.splits)

lemma lacks_required_key_Nil: "lacks_required_key []"
  by (simp add: lacks_required_key_def truthy_def)

lemma main_lacking:
  assumes lacks: "\<And>t response. describe_stacks w t (web_stack_name args) (Some (args_profile args)) = Inr response
            \<Longrightarrow> lacks_required_key (response_outputs response)"
    and tr: "list_all (\<lambda>e. \<not> is_upload e) tr"
  shows "nonzero_exit (fst (main w args tr)) \<and> list_all (\<lambda>e. \<not> is_upload e) (snd (main w args tr))"
proof -
  let ?P = "\<lambda>e. \<not> is_upload e"
  let ?tr0 = "tr @ [Print ''=== EC2 Manager Frontend Deployment ==='',
                    Print (''Environment: '' @ args_environment args),
                    Print (''AWS Profile: '' @ args_profile args), Print '''']"
  have vc: "behaves ?P (verify_credentials w args)"
    by (rule behaves_verify_credentials) simp_all
  have gs: "behaves ?P (get_stack_outputs w (web_stack_name args) (Some (args_profile args)))"
    by (rule behaves_get_stack_outputs) simp_all
  obtain r1 tr1 where r1: "verify_credentials w args ?tr0 = (r1, tr1)" by force
  have tr0: "list_all ?P ?tr0" using tr by simp
  have tr1: "list_all ?P tr1" using behaves_trace [OF vc tr0] r1 by simp
  show ?thesis
  proof (cases r1)
    case (Inl e)
    then have "main w args tr = (Inl e, tr1)" using r1 by (simp add: main_unfold)
    moreover have "nonzero_exit (Inl e :: exc + unit)"
      using behaves_exit [OF vc, of ?tr0 e] r1 Inl by simp
    ultimately show ?thesis using tr1 by simp
  next
    case (Inr u)
    let ?tr1 = "tr1 @ [Print (''Getting outputs from stack: '' @ web_stack_name args)]"
    obtain r2 tr2 where r2: "get_stack_outputs w (web_stack_name args) (Some (args_profile args)) ?tr1 = (r2, tr2)"
      by force
    have tr1': "list_all ?P ?tr1" using tr1 by simp
    have tr2: "list_all ?P tr2" using behaves_trace [OF gs tr1'] r2 by simp
    show ?thesis
    proof (cases r2)
      case (Inl e)
      then have "main w args tr = (Inl e, tr2)" using r1 r2 Inr by (simp add: main_unfold)
      moreover have "nonzero_exit (Inl e :: exc + unit)"
        using behaves_exit [OF gs, of ?tr1 e] r2 Inl by simp
      ultimately show ?thesis using tr2 by simp
    next
      case (Inr outputs)
      then have eq: "main w args tr = main_with_outputs w args outputs tr2"
        using r1 r2 \<open>r1 = Inr u\<close> by (simp add: main_unfold)
      have g: "get_stack_outputs w (web_stack_name args) (Some (args_profile args)) ?tr1 = (Inr outputs, tr2)"
        using r2 Inr by simp
      have "lacks_required_key outputs"
        using get_stack_outputs_cases [OF g] lacks lacks_required_key_Nil by blast
      from main_with_outputs_lacking [OF this, of w args tr2]
      obtain evs where "main_with_outputs w args outputs tr2 = (Inl (SystemExit 1), tr2 @ evs)"
        "list_all ?P evs" by blast
      with eq tr2 show ?thesis by simp
    qed
  qed
qed

section \<open>web-deploy-example.py: the events of each step\<close>

lemma behaves_WebDeployer_run_command:
  assumes "\<And>l m. P (Log l m)" and "P (Exec cmd cwd capture)"
  shows "behaves P (WebDeployer_run_command w cmd cwd capture)"
  unfolding WebDeployer_run_command_def
  by (intro behaves_intros) (auto simp: assms split: exc.splits error.splits intro!: behaves_intros)

lemma behaves_check_commands:
  assumes "\<And>l m. P (Log l m)" and "\<And>c. c \<in> set cmds \<Longrightarrow> P (Exec [c, ''--version''] None True)"
  shows "behaves P (check_commands w cmds)"
  using assms(2)
proof (induction cmds)
  case Nil
  show ?case by (simp add: behaves_return)
next
  case (Cons c cmds)
  have "P (Exec [c, ''--version''] None True)" using Cons.prems by simp
  moreover have "behaves P (check_commands w cmds)" using Cons by simp
  ultimately show ?case
    unfolding check_commands.simps
    by (intro behaves_intros) (auto simp: assms(1) split: if_splits intro!: behaves_intros)
qed

lemma behaves_validate_prerequisites:
  assumes "\<And>l m. P (Log l m)" and "P (Exec [''aws'', ''--version''] None True)"
    and "P (Exec [''npm'', ''--version''] None True)"
  shows "behaves P (validate_prerequisites w self)"
  unfolding validate_prerequisites_def
  by (intro behaves_intros behaves_check_commands) (auto simp: assms)

lemma behaves_log_outputs:
  assumes "\<And>l m. P (Log l m)"
  shows "behaves P (log_outputs outs)"
  by (induction outs) (auto simp: assms intro!: behaves_intros)

lemma behaves_WebDeployer_get_stack_outputs:
  assumes "\<And>l m. P (Log l m)" and "P (Exec (describe_stacks_cmd self) None True)"
  shows "behaves P (WebDeployer_get_stack_outputs w self)"
  unfolding WebDeployer_get_stack_outputs_def
  by (intro behaves_intros behaves_WebDeployer_run_command behaves_log_outputs)
     (auto simp: assms split: exc.splits error.splits intro!: behaves_intros)

lemma behaves_verify_bucket_exists:
  assumes "\<And>l m. P (Log l m)" and "P (Exec (s3_ls_cmd self b) None True)"
  shows "behaves P (verify_bucket_exists w self b)"
  unfolding verify_bucket_exists_def
  by (intro behaves_intros behaves_WebDeployer_run_command)
     (auto simp: assms split: exc.splits error.splits intro!: behaves_intros)

lemma behaves_extract_deployment_info:
  assumes "\<And>l m. P (Log l m)"
    and "P (Exec (s3_ls_cmd self (expected_bucket self)) None True)"
  shows "behaves P (extract_deployment_info w self outputs)"
  unfolding extract_deployment_info_def
  by (intro behaves_intros behaves_verify_bucket_exists) (auto simp: assms)

lemma behaves_existing_files: "behaves P (existing_files w d)"
  unfolding existing_files_def by (intro behaves_intros)

lemma behaves_WebDeployer_build_frontend:
  assumes "\<And>l m. P (Log l m)" and "P (Exec [''npm'', ''ci''] (Some (frontend_dir self)) False)"
    and "P (Exec [''npm'', ''run'', ''build''] (Some (frontend_dir self)) False)"
  shows "behaves P (WebDeployer_build_frontend w self)"
  unfolding WebDeployer_build_frontend_def
  by (intro behaves_intros behaves_WebDeployer_run_command behaves_existing_files)
     (auto simp: assms split: exc.splits error.splits intro!: behaves_intros behaves_existing_files)

lemma behaves_WebDeployer_sync_to_s3:
  assumes "\<And>l m. P (Log l m)" and "P (Exec (s3_sync_cmd self b) None False)"
  shows "behaves P (WebDeployer_sync_to_s3 w self b)"
  unfolding WebDeployer_sync_to_s3_def
  by (intro behaves_intros behaves_WebDeployer_run_command) (auto simp: assms)

lemma behaves_search_distributions:
  assumes "\<And>l m. P (Log l m)"
  shows "behaves P (search_distributions items domain_name)"
  by (induction items) (auto simp: assms split: option.splits intro!: behaves_intros)

lemma behaves_get_distribution_id:
  assumes "\<And>l m. P (Log l m)" and "P (Exec (list_distributions_cmd self) None True)"
  shows "behaves P (get_distribution_id w self domain_name)"
  unfolding get_distribution_id_def
  by (intro behaves_intros behaves_WebDeployer_run_command behaves_search_distributions)
     (auto simp: assms)

lemma behaves_WebDeployer_create_invalidation:
  assumes "\<And>l m. P (Log l m)" and "P (Exec (create_invalidation_cmd self d) None True)"
  shows "behaves P (WebDeployer_create_invalidation w self d)"
  unfolding WebDeployer_create_invalidation_def
  by (intro behaves_intros behaves_WebDeployer_run_command) (auto simp: assms)

lemma behaves_poll_status:
  assumes "\<And>l m. P (Log l m)" and "P (Exec (get_invalidation_cmd self d i) None True)"
  shows "behaves P (poll_status w self d i)"
  unfolding poll_status_def
  by (intro behaves_intros behaves_WebDeployer_run_command) (auto simp: assms)

lemma wait_loop_behaves:
  assumes lg: "\<And>l m. P (Log l m)" and ex: "P (Exec (get_invalidation_cmd self d i) None True)"
    and sl: "P (Sleep poll_interval)"
  shows "(\<exists>evs. snd (wait_loop w self d i elapsed tr) = tr @ evs \<and> list_all P evs)
           \<and> fst (wait_loop w self d i elapsed tr) \<noteq> Inl (SystemExit 0)"
  using ex
proof (induction w self d i elapsed tr rule: wait_loop.induct)
  case (1 w self d i elapsed tr)
  show ?case
  proof (cases "elapsed < max_wait_time")
    case False
    then show ?thesis
      by (simp add: wait_loop.simps [of w self d i elapsed tr] prog_defs lg)
  next
    case True
    have ps: "behaves P (poll_status w self d i)"
      using lg "1.prems" by (rule behaves_poll_status)
    obtain r tr' where r: "poll_status w self d i tr = (r, tr')" by force
    from ps obtain evs where evs: "tr' = tr @ evs" "list_all P evs" and ne: "r \<noteq> Inl (SystemExit 0)"
      unfolding behaves_def using r by (metis fst_conv snd_conv)
    show ?thesis
    proof (cases r)
      case (Inl e)
      then show ?thesis
        using True r evs ne by (simp add: wait_loop.simps [of w self d i elapsed tr])
    next
      case (Inr status)
      show ?thesis
      proof (cases "status = ''Completed''")
        case True
        then show ?thesis
          using \<open>elapsed < max_wait_time\<close> r Inr evs
          by (simp add: wait_loop.simps [of w self d i elapsed tr] prog_defs lg)
      next
        case False
        from "1.IH" [OF \<open>elapsed < max_wait_time\<close> r [symmetric] Inr False "1.prems"]
        obtain evs' where
          "snd (wait_loop w self d i (elapsed + poll_interval) (tr' @ [Sleep poll_interval]))
             = (tr' @ [Sleep poll_interval]) @ evs'" "list_all P evs'"
          and "fst (wait_loop w self d i (elapsed + poll_interval) (tr' @ [Sleep poll_interval]))
             \<noteq> Inl (SystemExit 0)"
          by auto
        then show ?thesis
          using \<open>elapsed < max_wait_time\<close> r Inr False evs sl
          by (simp add: wait_loop.simps [of w self d i elapsed tr])
      qed
    qed
  qed
qed

lemma behaves_wait_loop:
  assumes "\<And>l m. P (Log l m)" and "P (Exec (get_invalidation_cmd self d i) None True)"
    and "P (Sleep poll_interval)"
  shows "behaves P (wait_loop w self d i elapsed)"
  unfolding behaves_def using wait_loop_behaves [OF assms] by blast

lemma behaves_wait_for_invalidation:
  assumes "\<And>l m. P (Log l m)" and "P (Exec (get_invalidation_cmd self d i) None True)"
    and "P (Sleep poll_interval)"
  shows "behaves P (wait_for_invalidation w self d i)"
  unfolding wait_for_invalidation_def
  by (intro behaves_intros behaves_wait_loop) (auto simp: assms)

lemma behaves_verify_deployment:
  assumes "\<And>l m. P (Log l m)" and "\<And>u t. P (HttpGet u t)"
  shows "behaves P (verify_deployment w self domain)"
  unfolding verify_deployment_def
  by (intro behaves_intros) (auto simp: assms split: exc.splits error.splits if_splits intro!: behaves_intros)


lemma behaves_deploy: "behaves (deployer_event self) (deploy w self)"
  unfolding deploy_def
  by (intro behaves_intros behaves_validate_prerequisites behaves_WebDeployer_get_stack_outputs
        behaves_extract_deployment_info behaves_WebDeployer_build_frontend
        behaves_WebDeployer_sync_to_s3 behaves_get_distribution_id
        behaves_WebDeployer_create_invalidation behaves_wait_for_invalidation
        behaves_verify_deployment)
     (auto simp: deployer_event_def intro: deployer_command.intros split: prod.splits
           intro!: behaves_intros behaves_WebDeployer_build_frontend
        behaves_WebDeployer_sync_to_s3 behaves_get_distribution_id
        behaves_WebDeployer_create_invalidation behaves_wait_for_invalidation
        behaves_verify_deployment)

lemma behaves_example_main:
  "behaves (deployer_event (WebDeployer_init w env prof reg)) (example_main w env prof reg)"
  unfolding example_main_def
  by (intro behaves_catch behaves_deploy)
     (auto simp: deployer_event_def split: exc.splits error.splits intro!: behaves_intros)

section \<open>web-deploy-example.py: runs that stop before the upload\<close>

lemma bind_p_assoc: "bind_p (bind_p m f) g = bind_p m (\<lambda>a. bind_p (f a) g)"
  by (auto simp: bind_p_def fun_eq_iff split: prod.splits sum.splits)

lemma then_p_assoc: "bind_p (then_p m k) g = then_p m (bind_p k g)"
  by (simp add: then_p_def bind_p_assoc)

lemma deploy_split: "deploy w self = bind_p (deploy_prefix w self) (deploy_rest w self)"
  by (simp add: deploy_def deploy_prefix_def deploy_rest_def then_p_assoc bind_p_assoc)

lemma bind_p_fails: "fst (m tr) = Inl e \<Longrightarrow> bind_p m f tr = (Inl e, snd (m tr))"
  by (cases "m tr") (simp add: bind_p_def)

lemma behaves_deploy_prefix: "behaves (\<lambda>e. \<not> is_upload e) (deploy_prefix w self)"
  unfolding deploy_prefix_def
  by (intro behaves_intros behaves_validate_prerequisites behaves_WebDeployer_get_stack_outputs
        behaves_extract_deployment_info)
     (simp_all add: describe_stacks_cmd_def s3_ls_cmd_def)

lemma WebDeployer_get_stack_outputs_returned:
  assumes "WebDeployer_get_stack_outputs w self tr = (Inr outputs, tr')"
  shows "\<exists>s outs. decode_outputs w s = Inr outs \<and> outputs = outputs_dict outs"
  using assms
  by (auto simp: WebDeployer_get_stack_outputs_def WebDeployer_run_command_def prog_defs
        subprocess_check_def
      split: sum.splits prod.splits exc.splits error.splits if_splits)


lemma extract_fails_without_domain:
  assumes "\<not> truthy (find_output ''DistributionDomainName'' outputs)"
  shows "\<exists>e. fst (extract_deployment_info w self outputs tr) = Inl e"
  using assms
  by (auto simp: extract_deployment_info_def prog_defs split: sum.splits prod.splits)

lemma run_command_fails:
  assumes "\<And>r. subprocess_run w (tr @ [Log ''INFO'' (''Running: '' @ join_sp cmd)]) cmd None = Inr r
             \<Longrightarrow> returncode r \<noteq> 0"
  shows "\<exists>e. fst (WebDeployer_run_command w cmd None capture tr) = Inl e"
  using assms
  by (auto simp: WebDeployer_run_command_def prog_defs subprocess_check_def truthy_def
      split: sum.splits prod.splits exc.splits error.splits)

lemma verify_bucket_fails:
  assumes "\<And>t r. subprocess_run w t (s3_ls_cmd self b) None = Inr r \<Longrightarrow> returncode r \<noteq> 0"
  shows "\<exists>e. fst (verify_bucket_exists w self b tr) = Inl e"
proof -
  obtain e where "fst (WebDeployer_run_command w (s3_ls_cmd self b) None True
                        (tr @ [Log ''INFO'' (''Verifying bucket exists: '' @ b)])) = Inl e"
    using run_command_fails [of w _ "s3_ls_cmd self b" True] assms by blast
  then show ?thesis
    by (cases "WebDeployer_run_command w (s3_ls_cmd self b) None True
                        (tr @ [Log ''INFO'' (''Verifying bucket exists: '' @ b)])")
       (auto simp: verify_bucket_exists_def prog_defs split: exc.splits error.splits)
qed

lemma extract_fails_without_bucket:
  assumes "\<not> truthy (find_output ''FrontendBucketName'' outputs)"
    and "\<And>t r. subprocess_run w t (s3_ls_cmd self (expected_bucket self)) None = Inr r
           \<Longrightarrow> returncode r \<noteq> 0"
  shows "\<exists>e. fst (extract_deployment_info w self outputs tr) = Inl e"
proof -
  let ?tr = "tr @ [Log ''INFO'' ''Extracting deployment information from stack outputs...'',
                   Log ''INFO'' ''Frontend bucket name not found in stack outputs, trying fallback naming pattern'',
                   Log ''INFO'' (''Using fallback bucket name: '' @ expected_bucket self)]"
  obtain e where "fst (verify_bucket_exists w self (expected_bucket self) ?tr) = Inl e"
    using verify_bucket_fails [of w self "expected_bucket self" ?tr] assms(2) by blast
  then show ?thesis
    using assms(1)
    by (cases "verify_bucket_exists w self (expected_bucket self) ?tr")
       (auto simp: extract_deployment_info_def prog_defs)
qed


lemma deploy_prefix_fails:
  assumes "\<And>t outputs t'. WebDeployer_get_stack_outputs w self t = (Inr outputs, t')
             \<Longrightarrow> \<exists>e. fst (extract_deployment_info w self outputs t') = Inl e"
  shows "\<exists>e. fst (deploy_prefix w self tr) = Inl e"
proof -
  let ?tr0 = "tr @ [Log ''INFO'' (''Starting deployment for environment: '' @ environment self),
                    Log ''INFO'' (''Using AWS profile: '' @ profile self),
                    Log ''INFO'' (''Using AWS region: '' @ region self),
                    Log ''INFO'' (''Target CDK stack: '' @ stack_name self)]"
  obtain r1 t1 where r1: "validate_prerequisites w self ?tr0 = (r1, t1)" by force
  obtain r2 t2 where r2: "WebDeployer_get_stack_outputs w self t1 = (r2, t2)" by force
  show ?thesis
  proof (cases r1)
    case (Inl e)
    with r1 show ?thesis by (simp add: deploy_prefix_def prog_defs)
  next
    case (Inr u)
    show ?thesis
    proof (cases r2)
      case (Inl e)
      with r1 r2 Inr show ?thesis by (simp add: deploy_prefix_def prog_defs)
    next
      case (Inr outputs)
      with assms r2 obtain e where "fst (extract_deployment_info w self outputs t2) = Inl e"
        by blast
      with r1 r2 Inr \<open>r1 = Inr u\<close> show ?thesis by (simp add: deploy_prefix_def prog_defs)
    qed
  qed
qed

lemma deploy_stops_before_upload:
  assumes "\<And>t outputs t'. WebDeployer_get_stack_outputs w self t = (Inr outputs, t')
             \<Longrightarrow> \<exists>e. fst (extract_deployment_info w self outputs t') = Inl e"
    and "list_all (\<lambda>e. \<not> is_upload e) tr"
  shows "\<exists>e tr'. deploy w self tr = (Inl e, tr') \<and> list_all (\<lambda>e. \<not> is_upload e) tr'"
proof -
  have "\<exists>e. fst (deploy_prefix w self tr) = Inl e"
    by (rule deploy_prefix_fails) (rule assms(1))
  then obtain e where e: "fst (deploy_prefix w self tr) = Inl e" by blast
  have "list_all (\<lambda>e. \<not> is_upload e) (snd (deploy_prefix w self tr))"
    using behaves_trace [OF behaves_deploy_prefix assms(2)] .
  then show ?thesis
    using bind_p_fails [of "deploy_prefix w self" tr e "deploy_rest w self", OF e]
    by (simp add: deploy_split)
qed

lemma example_main_of_failed_deploy:
  assumes "deploy w (WebDeployer_init w env prof reg) tr = (Inl e, tr')"
    and "list_all (\<lambda>e. \<not> is_upload e) tr'"
  shows "nonzero_exit (fst (example_main w env prof reg tr))
       \<and> list_all (\<lambda>e. \<not> is_upload e) (snd (example_main w env prof reg tr))"
proof -
  have "\<exists>e' evs. example_main w env prof reg tr = (Inl e', tr' @ evs) \<and> list_all (\<lambda>e. \<not> is_upload e) evs"
    using assms(1) by (simp add: example_main_def prog_defs split: exc.splits error.splits)
  then obtain e' evs where ex: "example_main w env prof reg tr = (Inl e', tr' @ evs)"
    and evs: "list_all (\<lambda>e. \<not> is_upload e) evs" by blast
  have "nonzero_exit (Inl e' :: exc + unit)"
    using behaves_exit [OF behaves_example_main, of w env prof reg tr e'] ex by simp
  with ex evs assms(2) show ?thesis by simp
qed

lemma example_main_stops_before_upload:
  assumes "\<And>t outputs t'.
             WebDeployer_get_stack_outputs w (WebDeployer_init w env prof reg) t = (Inr outputs, t')
             \<Longrightarrow> \<exists>e. fst (extract_deployment_info w (WebDeployer_init w env prof reg) outputs t') = Inl e"
  shows "nonzero_exit (fst (example_main w env prof reg []))
       \<and> list_all (\<lambda>e. \<not> is_upload e) (snd (example_main w env prof reg []))"
proof -
  have "\<exists>e tr'. deploy w (WebDeployer_init w env prof reg) [] = (Inl e, tr')
           \<and> list_all (\<lambda>e. \<not> is_upload e) tr'"
    by (rule deploy_stops_before_upload) (simp_all add: assms)
  then obtain e tr' where "deploy w (WebDeployer_init w env prof reg) [] = (Inl e, tr')"
    "list_all (\<lambda>e. \<not> is_upload e) tr'" by blast
  then show ?thesis by (rule example_main_of_failed_deploy)
qed


section \<open>deploy-web.py: the environment file\<close>

lemma load_env_lines_malformed:
  "\<exists>raw \<in> set lines. malformed_line raw \<Longrightarrow> load_env_lines lines env_vars = Inl unpack_error"
proof (induction lines arbitrary: env_vars)
  case Nil
  then show ?case by simp
next
  case (Cons raw rest)
  show ?case
  proof (cases "malformed_line raw")
    case True
    then show ?thesis
      by (simp add: malformed_line_def content_line_def split_eq1_def unpack_error_def)
  next
    case False
    with Cons.prems have "\<exists>raw \<in> set rest. malformed_line raw" by simp
    then have "\<And>e. load_env_lines rest e = Inl unpack_error" by (rule Cons.IH)
    then show ?thesis
      using False by (auto simp: Let_def split_eq1_def malformed_line_def content_line_def)
  qed
qed

lemma load_env_lines_wellformed:
  "\<not> (\<exists>raw \<in> set lines. malformed_line raw) \<Longrightarrow>
   \<exists>env'. load_env_lines lines env_vars = Inr env'
     \<and> (\<forall>k. map_of env' k = (case map_of (rev (env_file_assignments lines)) k of
                                Some v \<Rightarrow> Some v | None \<Rightarrow> map_of env_vars k))"
proof (induction lines arbitrary: env_vars)
  case Nil
  then show ?case by simp
next
  case (Cons raw rest)
  then have rest: "\<not> (\<exists>raw \<in> set rest. malformed_line raw)" and raw: "\<not> malformed_line raw"
    by simp_all
  show ?case
  proof (cases "content_line raw")
    case False
    then have "load_env_lines (raw # rest) env_vars = load_env_lines rest env_vars"
      "env_file_assignments (raw # rest) = env_file_assignments rest"
      by (auto simp: content_line_def Let_def)
    then show ?thesis
      using Cons.IH [OF rest, of env_vars] by simp
  next
    case True
    with raw have eq: "CHR ''='' \<in> set (strip raw)" by (simp add: malformed_line_def)
    let ?k = "takeWhile (\<lambda>c. c \<noteq> CHR ''='') (strip raw)"
    let ?v = "tl (dropWhile (\<lambda>c. c \<noteq> CHR ''='') (strip raw))"
    from Cons.IH [OF rest, of "AList.update ?k ?v env_vars"]
    obtain env' where env': "load_env_lines rest (AList.update ?k ?v env_vars) = Inr env'"
      and look: "\<And>k. map_of env' k = (case map_of (rev (env_file_assignments rest)) k of
                    Some v \<Rightarrow> Some v | None \<Rightarrow> map_of (AList.update ?k ?v env_vars) k)"
      by blast
    have "load_env_lines (raw # rest) env_vars = Inr env'"
      using True eq env' by (simp add: content_line_def Let_def split_eq1_def)
    moreover have "map_of env' k = (case map_of (rev (env_file_assignments (raw # rest))) k of
                    Some v \<Rightarrow> Some v | None \<Rightarrow> map_of env_vars k)" for k
      using True eq by (simp add: look update_conv' map_add_def split: option.splits)
    ultimately show ?thesis by blast
  qed
qed


lemma inject_malformed:
  assumes present: "\<And>t. path_exists w t (env_file env)"
    and content: "\<And>t. open_lines w t (env_file env) = Inr lines"
    and bad: "\<exists>raw \<in> set lines. malformed_line raw"
  shows "inject_environment_variables w env tr =
           (Inl unpack_error,
            tr @ [Print (''\<newline>=== Setting Environment Variables for '' @ env @ '' ===''),
                  Print (''Loading environment from '' @ env_file env)])"
  by (simp add: inject_environment_variables_def load_env_vars_def prog_defs present content
        load_env_lines_malformed [OF bad])

lemma main_with_outputs_malformed:
  assumes present: "\<And>t. path_exists w t (env_file (args_environment args))"
    and content: "\<And>t. open_lines w t (env_file (args_environment args)) = Inr lines"
    and bad: "\<exists>raw \<in> set lines. malformed_line raw"
    and keys: "\<not> lacks_required_key outputs"
  shows "fst (main_with_outputs w args outputs tr) = Inl unpack_error"
proof -
  have ne: "outputs \<noteq> []"
    using keys lacks_required_key_Nil by auto
  show ?thesis
    using keys ne
    by (simp add: main_with_outputs_def Let_def lacks_required_key_def then_p_def bind_p_def emit_def
          inject_malformed [OF present content bad])
qed


section \<open>web-deploy-example.py: the poll loop\<close>

lemma poll_count_append [simp]: "poll_count (xs @ ys) = poll_count xs + poll_count ys"
  by (simp add: poll_count_def)

lemma total_sleep_append [simp]: "total_sleep (xs @ ys) = total_sleep xs + total_sleep ys"
  by (simp add: total_sleep_def)

lemma poll_count_simps [simp]:
  "poll_count [] = 0" "poll_count (Log l m # evs) = poll_count evs"
  "poll_count (Sleep n # evs) = poll_count evs"
  by (simp_all add: poll_count_def)

lemma total_sleep_simps [simp]:
  "total_sleep [] = 0" "total_sleep (Log l m # evs) = total_sleep evs"
  "total_sleep (Sleep n # evs) = n + total_sleep evs"
  by (simp_all add: total_sleep_def)

lemma poll_status_events:
  "\<exists>evs. snd (poll_status w self d i tr) = tr @ evs \<and> poll_count evs = 1 \<and> total_sleep evs = 0"
  by (auto simp: poll_status_def WebDeployer_run_command_def prog_defs subprocess_check_def
        get_invalidation_cmd_def poll_count_def total_sleep_def truthy_def
      split: sum.splits prod.splits exc.splits error.splits)


lemma polls_left_step:
  "elapsed < max_wait_time \<Longrightarrow> polls_left elapsed = Suc (polls_left (elapsed + poll_interval))"
  by (subst polls_left.simps) simp

lemma polls_left_done: "\<not> elapsed < max_wait_time \<Longrightarrow> polls_left elapsed = 0"
  by (subst polls_left.simps) simp

lemma wait_loop_bounded:
  "\<exists>evs. snd (wait_loop w self d i elapsed tr) = tr @ evs
      \<and> poll_count evs \<le> polls_left elapsed
      \<and> total_sleep evs \<le> poll_interval * polls_left elapsed"
proof (induction w self d i elapsed tr rule: wait_loop.induct)
  case (1 w self d i elapsed tr)
  show ?case
  proof (cases "elapsed < max_wait_time")
    case False
    then show ?thesis
      by (simp add: wait_loop.simps [of w self d i elapsed tr] prog_defs)
  next
    case True
    note step = polls_left_step [OF True]
    obtain r tr' where r: "poll_status w self d i tr = (r, tr')" by force
    from poll_status_events [of w self d i tr] r
    obtain evs where evs: "tr' = tr @ evs" "poll_count evs = 1" "total_sleep evs = 0" by auto
    show ?thesis
    proof (cases r)
      case (Inl e)
      then show ?thesis
        using True r evs
        by (simp add: wait_loop.simps [of w self d i elapsed tr] step)
    next
      case (Inr status)
      show ?thesis
      proof (cases "status = ''Completed''")
        case True
        then show ?thesis
          using \<open>elapsed < max_wait_time\<close> r Inr evs
          by (simp add: wait_loop.simps [of w self d i elapsed tr] prog_defs step)
      next
        case False
        from "1.IH" [OF \<open>elapsed < max_wait_time\<close> r [symmetric] Inr False]
        obtain evs' where evs':
          "snd (wait_loop w self d i (elapsed + poll_interval) (tr' @ [Sleep poll_interval]))
             = (tr' @ [Sleep poll_interval]) @ evs'"
          "poll_count evs' \<le> polls_left (elapsed + poll_interval)"
          "total_sleep evs' \<le> poll_interval * polls_left (elapsed + poll_interval)"
          by blast
        have "snd (wait_loop w self d i elapsed tr) = tr @ (evs @ [Sleep poll_interval] @ evs')"
          using \<open>elapsed < max_wait_time\<close> r Inr False evs(1) evs'(1)
          by (simp add: wait_loop.simps [of w self d i elapsed tr])
        moreover have "poll_count (evs @ [Sleep poll_interval] @ evs') \<le> polls_left elapsed"
          using evs(2) evs'(2) by (simp add: step)
        moreover have "total_sleep (evs @ [Sleep poll_interval] @ evs') \<le> poll_interval * polls_left elapsed"
          using evs(3) evs'(3) by (simp add: step)
        ultimately show ?thesis by blast
      qed
    qed
  qed
qed

lemma wait_loop_completed:
  assumes "elapsed < max_wait_time" and "fst (poll_status w self d i tr) = Inr ''Completed''"
  shows "wait_loop w self d i elapsed tr =
           (Inr (), snd (poll_status w self d i tr) @ [Log ''INFO'' ''Invalidation completed successfully''])"
  using assms
  by (cases "poll_status w self d i tr") (simp add: wait_loop.simps [of w self d i elapsed tr] prog_defs)

lemma wait_loop_never_completed:
  assumes never: "\<And>t. \<exists>status t'. poll_status w self d i t = (Inr status, t') \<and> status \<noteq> ''Completed''"
  shows "\<exists>evs. wait_loop w self d i elapsed tr =
            (Inl (SystemExit 1),
             tr @ evs @ [Log ''ERROR'' (''Invalidation did not complete within '' @ str_nat max_wait_time @ '' seconds'')])
      \<and> poll_count evs = polls_left elapsed
      \<and> total_sleep evs = poll_interval * polls_left elapsed"
  using never
proof (induction w self d i elapsed tr rule: wait_loop.induct)
  case (1 w self d i elapsed tr)
  show ?case
  proof (cases "elapsed < max_wait_time")
    case False
    then show ?thesis
      by (simp add: wait_loop.simps [of w self d i elapsed tr] prog_defs polls_left_done)
  next
    case True
    note step = polls_left_step [OF True]
    from "1.prems" [of tr] obtain status tr' where
      r: "poll_status w self d i tr = (Inr status, tr')" and st: "status \<noteq> ''Completed''" by blast
    from poll_status_events [of w self d i tr] r
    obtain evs where evs: "tr' = tr @ evs" "poll_count evs = 1" "total_sleep evs = 0" by auto
    from "1.IH" [OF True r [symmetric] refl st "1.prems"]
    obtain evs' where evs':
      "wait_loop w self d i (elapsed + poll_interval) (tr' @ [Sleep poll_interval]) =
         (Inl (SystemExit 1),
          (tr' @ [Sleep poll_interval]) @ evs' @ [Log ''ERROR'' (''Invalidation did not complete within '' @ str_nat max_wait_time @ '' seconds'')])"
      "poll_count evs' = polls_left (elapsed + poll_interval)"
      "total_sleep evs' = poll_interval * polls_left (elapsed + poll_interval)"
      by blast
    have "wait_loop w self d i elapsed tr =
            (Inl (SystemExit 1),
             tr @ (evs @ [Sleep poll_interval] @ evs') @ [Log ''ERROR'' (''Invalidation did not complete within '' @ str_nat max_wait_time @ '' seconds'')])"
      using True r st evs(1) evs'(1) by (simp add: wait_loop.simps [of w self d i elapsed tr])
    moreover have "poll_count (evs @ [Sleep poll_interval] @ evs') = polls_left elapsed"
      using evs(2) evs'(2) by (simp add: step)
    moreover have "total_sleep (evs @ [Sleep poll_interval] @ evs') = poll_interval * polls_left elapsed"
      using evs(3) evs'(3) by (simp add: step)
    ultimately show ?thesis by blast
  qed
qed

lemma polls_left_0: "polls_left 0 = 30"
  by (simp add: polls_left.simps max_wait_time_def poll_interval_def)


section \<open>deploy-web.py: what is set in the environment\<close>

lemma set_environ_ok:
  "list_all (\<lambda>(k, v). putenv_ok k v) env_vars \<Longrightarrow>
   set_environ env_vars tr =
     (Inr (), tr @ concat (map (\<lambda>(k, v). [SetEnv k v, Print (''  '' @ k @ ''='' @ v)]) env_vars))"
proof (induction env_vars arbitrary: tr)
  case Nil
  then show ?case by (simp add: return_p_def)
next
  case (Cons kv rest)
  obtain k v where kv: "kv = (k, v)" by (cases kv)
  from Cons.prems kv have ok: "putenv_ok k v" and rest: "list_all (\<lambda>(k, v). putenv_ok k v) rest"
    by simp_all
  show ?case
    using ok by (simp add: kv then_p_def bind_p_def emit_def Cons.IH [OF rest])
qed


lemma load_env_lines_distinct:
  "distinct (map fst env0) \<Longrightarrow> load_env_lines lines env0 = Inr env_vars
     \<Longrightarrow> distinct (map fst env_vars)"
proof (induction lines arbitrary: env0)
  case Nil
  then show ?case by simp
next
  case (Cons raw rest)
  show ?case
  proof (cases "strip raw \<noteq> [] \<and> \<not> prefix ''#'' (strip raw)")
    case False
    then have "load_env_lines (raw # rest) env0 = load_env_lines rest env0"
      by (auto simp: Let_def)
    with Cons show ?thesis by simp
  next
    case True
    show ?thesis
    proof (cases "CHR ''='' \<in> set (strip raw)")
      case False
      with True have "load_env_lines (raw # rest) env0 = Inl unpack_error"
        by (simp add: Let_def split_eq1_def unpack_error_def)
      with Cons.prems show ?thesis by simp
    next
      case eq: True
      let ?k = "takeWhile (\<lambda>c. c \<noteq> CHR ''='') (strip raw)"
      let ?v = "tl (dropWhile (\<lambda>c. c \<noteq> CHR ''='') (strip raw))"
      from True eq have "load_env_lines (raw # rest) env0 = load_env_lines rest (AList.update ?k ?v env0)"
        by (simp add: Let_def split_eq1_def)
      moreover have "distinct (map fst (AList.update ?k ?v env0))"
        using Cons.prems(1) by (rule distinct_update)
      ultimately show ?thesis using Cons.IH Cons.prems(2) by simp
    qed
  qed
qed

lemma inject_wellformed:
  assumes present: "\<And>t. path_exists w t (env_file env)"
    and content: "\<And>t. open_lines w t (env_file env) = Inr lines"
    and loaded: "load_env_lines lines (default_env_vars env) = Inr env_vars"
    and ok: "list_all (\<lambda>(k, v). putenv_ok k v) env_vars"
  shows "inject_environment_variables w env tr =
           (Inr (),
            tr @ [Print (''\<newline>=== Setting Environment Variables for '' @ env @ '' ===''),
                  Print (''Loading environment from '' @ env_file env)]
               @ concat (map (\<lambda>(k, v). [SetEnv k v, Print (''  '' @ k @ ''='' @ v)]) env_vars)
               @ [Print (check_mark @ '' Environment variables set'')])"
  by (simp add: inject_environment_variables_def load_env_vars_def prog_defs present content loaded
        set_environ_ok [OF ok])

lemma default_env_vars_distinct: "distinct (map fst (default_env_vars env))"
  by (simp add: default_env_vars_def)

section \<open>web-deploy-example.py: the fallback bucket\<close>

lemma WebDeployer_run_command_succeeds:
  assumes "\<And>t. \<exists>r. subprocess_run w t cmd cwd = Inr r \<and> returncode r = 0"
  shows "\<exists>r. fst (WebDeployer_run_command w cmd cwd capture tr) = Inr r"
proof (cases "truthy cwd")
  case True
  from assms [of "tr @ [Log ''INFO'' (''Running: '' @ join_sp cmd @ '' (in '' @ str_opt cwd @ '')'')]"]
  obtain r where "subprocess_run w (tr @ [Log ''INFO'' (''Running: '' @ join_sp cmd @ '' (in '' @ str_opt cwd @ '')'')]) cmd cwd = Inr r"
    "returncode r = 0" by blast
  with True show ?thesis
    by (simp add: WebDeployer_run_command_def prog_defs subprocess_check_def)
next
  case False
  from assms [of "tr @ [Log ''INFO'' (''Running: '' @ join_sp cmd)]"]
  obtain r where "subprocess_run w (tr @ [Log ''INFO'' (''Running: '' @ join_sp cmd)]) cmd cwd = Inr r"
    "returncode r = 0" by blast
  with False show ?thesis
    by (simp add: WebDeployer_run_command_def prog_defs subprocess_check_def)
qed

lemma verify_bucket_succeeds:
  assumes "\<And>t. \<exists>r. subprocess_run w t (s3_ls_cmd self b) None = Inr r \<and> returncode r = 0"
  shows "fst (verify_bucket_exists w self b tr) = Inr ()"
proof -
  let ?tr = "tr @ [Log ''INFO'' (''Verifying bucket exists: '' @ b)]"
  from WebDeployer_run_command_succeeds [OF assms, of True ?tr]
  obtain r where "fst (WebDeployer_run_command w (s3_ls_cmd self b) None True ?tr) = Inr r" by blast
  then show ?thesis
    by (cases "WebDeployer_run_command w (s3_ls_cmd self b) None True ?tr")
       (simp add: verify_bucket_exists_def prog_defs)
qed

lemma extract_with_fallback:
  assumes nobucket: "\<not> truthy (find_output ''FrontendBucketName'' outputs)"
    and domain: "truthy (find_output ''DistributionDomainName'' outputs)"
    and listing: "\<And>t. \<exists>r. subprocess_run w t (s3_ls_cmd self (expected_bucket self)) None = Inr r
                    \<and> returncode r = 0"
  shows "fst (extract_deployment_info w self outputs tr) =
           Inr (expected_bucket self, str_opt (find_output ''DistributionDomainName'' outputs))"
proof -
  let ?tr = "tr @ [Log ''INFO'' ''Extracting deployment information from stack outputs...'',
                   Log ''INFO'' ''Frontend bucket name not found in stack outputs, trying fallback naming pattern'',
                   Log ''INFO'' (''Using fallback bucket name: '' @ expected_bucket self)]"
  have "fst (verify_bucket_exists w self (expected_bucket self) ?tr) = Inr ()"
    by (rule verify_bucket_succeeds) (rule listing)
  then show ?thesis
    using nobucket domain
    by (cases "verify_bucket_exists w self (expected_bucket self) ?tr")
       (simp add: extract_deployment_info_def prog_defs)
qed

section \<open>The claims\<close>

text \<open>
  C10. When the \<^verbatim>\<open>describe_stacks\<close> query fails with a \<^verbatim>\<open>ClientError\<close>,
  \<^verbatim>\<open>get_stack_outputs\<close> does not raise: it prints the error and returns the empty
  dictionary, which is also what it returns for a stack whose list of outputs is empty. The
  caller treats the empty dictionary as fatal (\<^verbatim>\<open>sys.exit(1)\<close>), so both runs end with
  a non-zero status.
\<close>

theorem failed_query_looks_like_empty_stack:
  assumes failed: "\<And>t. describe_stacks w t (web_stack_name args) (Some (args_profile args))
                        = Inl (ClientError m)"
    and empty: "\<And>t. describe_stacks w' t (web_stack_name args) (Some (args_profile args))
                        = Inr (Some [Some []])"
  shows "get_stack_outputs w (web_stack_name args) (Some (args_profile args)) tr
           = (Inr [], tr @ [DescribeStacks (web_stack_name args) (Some (args_profile args)),
                            Print (''Error getting stack outputs: '' @ exc_text w (ClientError m))])
       \<and> fst (get_stack_outputs w' (web_stack_name args) (Some (args_profile args)) tr) = Inr []
       \<and> main_with_outputs w args [] tr
           = (Inl (SystemExit 1),
              tr @ [Print (''ERROR: Could not get outputs from stack '' @ web_stack_name args),
                    Print ''Make sure the web stack is deployed first!''])
       \<and> nonzero_exit (fst (main w args []))
       \<and> nonzero_exit (fst (main w' args []))"
proof -
  have a: "get_stack_outputs w (web_stack_name args) (Some (args_profile args)) tr
           = (Inr [], tr @ [DescribeStacks (web_stack_name args) (Some (args_profile args)),
                            Print (''Error getting stack outputs: '' @ exc_text w (ClientError m))])"
    by (rule get_stack_outputs_client_error) (rule failed)
  have b: "fst (get_stack_outputs w' (web_stack_name args) (Some (args_profile args)) tr) = Inr []"
    by (simp add: get_stack_outputs_returned [OF empty] response_outputs_def outputs_dict_def)
  have c: "nonzero_exit (fst (main w args []))"
    using main_lacking [of w args "[]"] by (simp add: failed)
  have d: "nonzero_exit (fst (main w' args []))"
    using main_lacking [of w' args "[]"]
    by (simp add: empty response_outputs_def outputs_dict_def lacks_required_key_Nil)
  from a b c d show ?thesis by (simp add: main_with_outputs_empty)
qed

theorem failed_query_looks_like_empty_stack_witness:
  "get_stack_outputs denied_world ''EC2Manager-Web-dev'' (Some ''jnicamzn-sso-ec2'') []
     = (Inr [], [DescribeStacks ''EC2Manager-Web-dev'' (Some ''jnicamzn-sso-ec2''),
                 Print ''Error getting stack outputs: error''])
   \<and> fst (get_stack_outputs empty_stack_world ''EC2Manager-Web-dev'' (Some ''jnicamzn-sso-ec2'') [])
       = Inr []
   \<and> nonzero_exit (fst (main denied_world dev_args []))
   \<and> nonzero_exit (fst (main empty_stack_world dev_args []))"
  using failed_query_looks_like_empty_stack
          [of denied_world dev_args "''AccessDenied''" empty_stack_world "[]"]
  by (simp add: denied_world_def empty_stack_world_def quiet_world_def dev_args_def
        web_stack_name_def)

text \<open>
  C1, as amended. In \<^verbatim>\<open>deploy-web.py\<close>, a stack whose outputs lack a non-empty
  \<^verbatim>\<open>S3BucketName\<close> or \<^verbatim>\<open>DistributionId\<close> makes the run end with a non-zero status before
  any \<^verbatim>\<open>aws s3 sync\<close>. In \<^verbatim>\<open>web-deploy-example.py\<close> the same holds for outputs without a
  key containing \<^verbatim>\<open>DistributionDomainName\<close>. Outputs without a key containing
  \<^verbatim>\<open>FrontendBucketName\<close> are not fatal by themselves: the script falls back to the bucket
  \<^verbatim>\<open>ebs-perf-{environment}-frontend\<close>. If the listing of that bucket fails, the run ends
  with a non-zero status before any \<^verbatim>\<open>aws s3 sync\<close>; if the listing succeeds and the domain
  key is there, \<^verbatim>\<open>extract_deployment_info\<close> returns the fallback bucket with the
  domain, and the run goes on with them.
\<close>

theorem missing_output_key_stops_before_upload:
  "((\<forall>t response. describe_stacks w t (web_stack_name args) (Some (args_profile args)) = Inr response
        \<longrightarrow> lacks_required_key (response_outputs response))
      \<longrightarrow> nonzero_exit (fst (main w args [])) \<and> \<not> list_ex is_upload (snd (main w args [])))
   \<and> ((\<forall>s outs. decode_outputs w s = Inr outs
        \<longrightarrow> \<not> truthy (find_output ''DistributionDomainName'' (outputs_dict outs)))
      \<longrightarrow> nonzero_exit (fst (example_main w env prof reg []))
          \<and> \<not> list_ex is_upload (snd (example_main w env prof reg [])))
   \<and> ((\<forall>s outs. decode_outputs w s = Inr outs
        \<longrightarrow> \<not> truthy (find_output ''FrontendBucketName'' (outputs_dict outs)))
       \<and> (\<forall>t r. subprocess_run w t
                  (s3_ls_cmd (WebDeployer_init w env prof reg)
                     (expected_bucket (WebDeployer_init w env prof reg))) None = Inr r
              \<longrightarrow> returncode r \<noteq> 0)
      \<longrightarrow> nonzero_exit (fst (example_main w env prof reg []))
          \<and> \<not> list_ex is_upload (snd (example_main w env prof reg [])))
   \<and> (\<not> truthy (find_output ''FrontendBucketName'' outputs)
       \<and> truthy (find_output ''DistributionDomainName'' outputs)
       \<and> (\<forall>t. \<exists>r. subprocess_run w t (s3_ls_cmd self (expected_bucket self)) None = Inr r
                  \<and> returncode r = 0)
      \<longrightarrow> fst (extract_deployment_info w self outputs tr) =
            Inr (expected_bucket self, str_opt (find_output ''DistributionDomainName'' outputs)))"
proof (intro conjI impI)
  assume "\<forall>t response. describe_stacks w t (web_stack_name args) (Some (args_profile args)) = Inr response
        \<longrightarrow> lacks_required_key (response_outputs response)"
  then have "nonzero_exit (fst (main w args [])) \<and> list_all (\<lambda>e. \<not> is_upload e) (snd (main w args []))"
    by (intro main_lacking) auto
  then show "nonzero_exit (fst (main w args []))" "\<not> list_ex is_upload (snd (main w args []))"
    by (simp_all add: list_ex_iff list_all_iff)
next
  assume h: "\<forall>s outs. decode_outputs w s = Inr outs
        \<longrightarrow> \<not> truthy (find_output ''DistributionDomainName'' (outputs_dict outs))"
  have "nonzero_exit (fst (example_main w env prof reg []))
       \<and> list_all (\<lambda>e. \<not> is_upload e) (snd (example_main w env prof reg []))"
  proof (rule example_main_stops_before_upload)
    fix t outputs t'
    assume "WebDeployer_get_stack_outputs w (WebDeployer_init w env prof reg) t = (Inr outputs, t')"
    from WebDeployer_get_stack_outputs_returned [OF this] h
    have "\<not> truthy (find_output ''DistributionDomainName'' outputs)" by auto
    then show "\<exists>e. fst (extract_deployment_info w (WebDeployer_init w env prof reg) outputs t') = Inl e"
      by (rule extract_fails_without_domain)
  qed
  then show "nonzero_exit (fst (example_main w env prof reg []))"
    "\<not> list_ex is_upload (snd (example_main w env prof reg []))"
    by (simp_all add: list_ex_iff list_all_iff)
next
  assume h: "(\<forall>s outs. decode_outputs w s = Inr outs
        \<longrightarrow> \<not> truthy (find_output ''FrontendBucketName'' (outputs_dict outs)))
       \<and> (\<forall>t r. subprocess_run w t
                  (s3_ls_cmd (WebDeployer_init w env prof reg)
                     (expected_bucket (WebDeployer_init w env prof reg))) None = Inr r
              \<longrightarrow> returncode r \<noteq> 0)"
  have "nonzero_exit (fst (example_main w env prof reg []))
       \<and> list_all (\<lambda>e. \<not> is_upload e) (snd (example_main w env prof reg []))"
  proof (rule example_main_stops_before_upload)
    fix t outputs t'
    assume "WebDeployer_get_stack_outputs w (WebDeployer_init w env prof reg) t = (Inr outputs, t')"
    from WebDeployer_get_stack_outputs_returned [OF this] h
    have "\<not> truthy (find_output ''FrontendBucketName'' outputs)" by auto
    then show "\<exists>e. fst (extract_deployment_info w (WebDeployer_init w env prof reg) outputs t') = Inl e"
      using h by (intro extract_fails_without_bucket) auto
  qed
  then show "nonzero_exit (fst (example_main w env prof reg []))"
    "\<not> list_ex is_upload (snd (example_main w env prof reg []))"
    by (simp_all add: list_ex_iff list_all_iff)
next
  assume h: "\<not> truthy (find_output ''FrontendBucketName'' outputs)
       \<and> truthy (find_output ''DistributionDomainName'' outputs)
       \<and> (\<forall>t. \<exists>r. subprocess_run w t (s3_ls_cmd self (expected_bucket self)) None = Inr r
                  \<and> returncode r = 0)"
  then show "fst (extract_deployment_info w self outputs tr) =
            Inr (expected_bucket self, str_opt (find_output ''DistributionDomainName'' outputs))"
    by (intro extract_with_fallback) auto
qed

theorem missing_output_key_stops_before_upload_witness:
  "describe_stacks no_distribution_world [] (web_stack_name dev_args) (Some (args_profile dev_args))
     = Inr (Some [Some [(''S3BucketName'', ''site-bucket'')]])
   \<and> lacks_required_key (response_outputs (Some [Some [(''S3BucketName'', ''site-bucket'')]]))
   \<and> nonzero_exit (fst (main no_distribution_world dev_args []))
   \<and> \<not> list_ex is_upload (snd (main no_distribution_world dev_args []))
   \<and> decode_outputs no_domain_world ''{}'' = Inr [(''FrontendBucketName'', ''site-bucket'')]
   \<and> nonzero_exit (fst (example_main no_domain_world ''dev'' None None []))
   \<and> \<not> list_ex is_upload (snd (example_main no_domain_world ''dev'' None None []))
   \<and> decode_outputs no_bucket_denied_world ''{}'' = Inr [(''DistributionDomainName'', ''d1.cloudfront.net'')]
   \<and> nonzero_exit (fst (example_main no_bucket_denied_world ''dev'' None None []))
   \<and> \<not> list_ex is_upload (snd (example_main no_bucket_denied_world ''dev'' None None []))
   \<and> find_output ''FrontendBucketName'' [(''DistributionDomainName'', ''d1.cloudfront.net'')] = None
   \<and> subprocess_run no_bucket_world [] (s3_ls_cmd dev_deployer (expected_bucket dev_deployer)) None
       = Inr ok_result
   \<and> fst (extract_deployment_info no_bucket_world dev_deployer
            [(''DistributionDomainName'', ''d1.cloudfront.net'')] [])
       = Inr (''ebs-perf-dev-frontend'', ''d1.cloudfront.net'')"
proof -
  have a: "nonzero_exit (fst (main no_distribution_world dev_args []))
       \<and> \<not> list_ex is_upload (snd (main no_distribution_world dev_args []))"
    using missing_output_key_stops_before_upload
            [where w = no_distribution_world and args = dev_args, THEN conjunct1]
    by (simp add: no_distribution_world_def quiet_world_def lacks_required_key_def
          response_outputs_def outputs_dict_def truthy_def)
  have b: "nonzero_exit (fst (example_main no_domain_world ''dev'' None None []))
       \<and> \<not> list_ex is_upload (snd (example_main no_domain_world ''dev'' None None []))"
    using missing_output_key_stops_before_upload
            [where w = no_domain_world and env = "''dev''" and prof = None and reg = None,
             THEN conjunct2, THEN conjunct1]
    by (simp add: no_domain_world_def quiet_world_def outputs_dict_def find_output_def truthy_def
          sublist_Cons_right)
  have c: "nonzero_exit (fst (example_main no_bucket_denied_world ''dev'' None None []))
       \<and> \<not> list_ex is_upload (snd (example_main no_bucket_denied_world ''dev'' None None []))"
    using missing_output_key_stops_before_upload
            [where w = no_bucket_denied_world and env = "''dev''" and prof = None and reg = None,
             THEN conjunct2, THEN conjunct2, THEN conjunct1]
    by (simp add: no_bucket_denied_world_def no_bucket_world_def quiet_world_def outputs_dict_def
          find_output_def truthy_def sublist_Cons_right s3_ls_cmd_def failed_result_def)
  have d: "fst (extract_deployment_info no_bucket_world dev_deployer
            [(''DistributionDomainName'', ''d1.cloudfront.net'')] [])
       = Inr (expected_bucket dev_deployer,
              str_opt (find_output ''DistributionDomainName''
                         [(''DistributionDomainName'', ''d1.cloudfront.net'')]))"
    using missing_output_key_stops_before_upload
            [where w = no_bucket_world and self = dev_deployer and tr = "[]"
               and outputs = "[(''DistributionDomainName'', ''d1.cloudfront.net'')]",
             THEN conjunct2, THEN conjunct2, THEN conjunct2]
    by (simp add: no_bucket_world_def quiet_world_def ok_result_def find_output_def truthy_def
          sublist_Cons_right)
  have e: "expected_bucket dev_deployer = ''ebs-perf-dev-frontend''"
    by (simp add: expected_bucket_def dev_deployer_def WebDeployer_init_def Let_def truthy_def)
  from a b c d e show ?thesis
    by (simp add: no_distribution_world_def no_domain_world_def no_bucket_denied_world_def
          no_bucket_world_def quiet_world_def lacks_required_key_def response_outputs_def
          outputs_dict_def truthy_def find_output_def str_opt_def sublist_Cons_right)
qed

lemmas example_defs = example_main_def deploy_def WebDeployer_init_def validate_prerequisites_def
  WebDeployer_get_stack_outputs_def WebDeployer_run_command_def extract_deployment_info_def
  verify_bucket_exists_def WebDeployer_build_frontend_def existing_files_def
  WebDeployer_sync_to_s3_def get_distribution_id_def WebDeployer_create_invalidation_def
  wait_for_invalidation_def poll_status_def verify_deployment_def
  describe_stacks_cmd_def s3_ls_cmd_def s3_sync_cmd_def list_distributions_cmd_def
  create_invalidation_cmd_def get_invalidation_cmd_def expected_bucket_def find_output_def
  outputs_dict_def subprocess_check_def truthy_def str_opt_def dirname_def path_join_def
  max_wait_time_def poll_interval_def

text \<open>
  C1 as stated fails: with outputs that have no bucket key,
  \<^verbatim>\<open>web-deploy-example.py\<close> falls back to the bucket \<^verbatim>\<open>ebs-perf-dev-frontend\<close>, and when
  that bucket can be listed the run goes on to the upload and ends with status 0.
\<close>

theorem missing_bucket_key_counterexample:
  "find_output ''FrontendBucketName'' (outputs_dict [(''DistributionDomainName'', ''d1.cloudfront.net'')]) = None
   \<and> decode_outputs no_bucket_world ''{}'' = Inr [(''DistributionDomainName'', ''d1.cloudfront.net'')]
   \<and> \<not> nonzero_exit (fst (example_main no_bucket_world ''dev'' None None []))
   \<and> list_ex is_upload (snd (example_main no_bucket_world ''dev'' None None []))"
  by (simp add: no_bucket_world_def quiet_world_def ok_result_def example_defs prog_defs
        wait_loop.simps sublist_Cons_right)

text \<open>
  C9. When \<^verbatim>\<open>.env.{environment}\<close> exists and one of its lines is neither blank nor a comment
  and has no \<^verbatim>\<open>=\<close>, \<^verbatim>\<open>inject_environment_variables\<close> leaves with the \<^verbatim>\<open>ValueError\<close> of the
  unpacking, after two prints and before any variable is set; \<^verbatim>\<open>main\<close> has no handler for
  it, so it is what ends the run (no \<^verbatim>\<open>sys.exit\<close>, no printed diagnostic). When no line is
  malformed, the dictionary that is loaded has each key once and maps it to the value of
  its last assignment in the file, and to the built-in default only for a key the file
  does not assign; and when the file exists with these lines and \<^verbatim>\<open>os.environ\<close> accepts
  every pair, \<^verbatim>\<open>inject_environment_variables\<close> returns after setting exactly the pairs of
  that dictionary, in its order, each followed by its print.
\<close>

theorem env_file_injection:
  "((\<forall>t. path_exists w t (env_file env)) \<and> (\<forall>t. open_lines w t (env_file env) = Inr lines)
       \<and> (\<exists>raw \<in> set lines. malformed_line raw)
     \<longrightarrow> inject_environment_variables w env tr =
           (Inl unpack_error,
            tr @ [Print (''\<newline>=== Setting Environment Variables for '' @ env @ '' ===''),
                  Print (''Loading environment from '' @ env_file env)])
         \<and> (env = args_environment args \<and> \<not> lacks_required_key outputs
              \<longrightarrow> fst (main_with_outputs w args outputs tr) = Inl unpack_error))
   \<and> (\<not> (\<exists>raw \<in> set lines. malformed_line raw)
     \<longrightarrow> (\<exists>env_vars. load_env_lines lines (default_env_vars env) = Inr env_vars
           \<and> distinct (map fst env_vars)
           \<and> (\<forall>k. map_of env_vars k =
                  (case map_of (rev (env_file_assignments lines)) k of
                     Some v \<Rightarrow> Some v
                   | None \<Rightarrow> map_of (default_env_vars env) k))))
   \<and> ((\<forall>t. path_exists w t (env_file env)) \<and> (\<forall>t. open_lines w t (env_file env) = Inr lines)
       \<and> load_env_lines lines (default_env_vars env) = Inr loaded
       \<and> list_all (\<lambda>(k, v). putenv_ok k v) loaded
     \<longrightarrow> inject_environment_variables w env tr =
           (Inr (),
            tr @ [Print (''\<newline>=== Setting Environment Variables for '' @ env @ '' ===''),
                  Print (''Loading environment from '' @ env_file env)]
               @ concat (map (\<lambda>(k, v). [SetEnv k v, Print (''  '' @ k @ ''='' @ v)]) loaded)
               @ [Print (check_mark @ '' Environment variables set'')]))"
proof (intro conjI impI)
  assume h: "(\<forall>t. path_exists w t (env_file env)) \<and> (\<forall>t. open_lines w t (env_file env) = Inr lines)
       \<and> (\<exists>raw \<in> set lines. malformed_line raw)"
  then show "inject_environment_variables w env tr =
           (Inl unpack_error,
            tr @ [Print (''\<newline>=== Setting Environment Variables for '' @ env @ '' ===''),
                  Print (''Loading environment from '' @ env_file env)])"
    by (intro inject_malformed) auto
  assume "env = args_environment args \<and> \<not> lacks_required_key outputs"
  with h show "fst (main_with_outputs w args outputs tr) = Inl unpack_error"
    by (intro main_with_outputs_malformed [where lines = lines]) auto
next
  assume wf: "\<not> (\<exists>raw \<in> set lines. malformed_line raw)"
  from load_env_lines_wellformed [OF wf, of "default_env_vars env"]
  obtain env_vars where loaded: "load_env_lines lines (default_env_vars env) = Inr env_vars"
    and look: "\<forall>k. map_of env_vars k =
                  (case map_of (rev (env_file_assignments lines)) k of
                     Some v \<Rightarrow> Some v
                   | None \<Rightarrow> map_of (default_env_vars env) k)"
    by blast
  have "distinct (map fst env_vars)"
    using default_env_vars_distinct loaded by (rule load_env_lines_distinct)
  with loaded look
  show "\<exists>env_vars. load_env_lines lines (default_env_vars env) = Inr env_vars
           \<and> distinct (map fst env_vars)
           \<and> (\<forall>k. map_of env_vars k =
                  (case map_of (rev (env_file_assignments lines)) k of
                     Some v \<Rightarrow> Some v
                   | None \<Rightarrow> map_of (default_env_vars env) k))"
    by blast
next
  assume h: "(\<forall>t. path_exists w t (env_file env)) \<and> (\<forall>t. open_lines w t (env_file env) = Inr lines)
       \<and> load_env_lines lines (default_env_vars env) = Inr loaded
       \<and> list_all (\<lambda>(k, v). putenv_ok k v) loaded"
  then show "inject_environment_variables w env tr =
           (Inr (),
            tr @ [Print (''\<newline>=== Setting Environment Variables for '' @ env @ '' ===''),
                  Print (''Loading environment from '' @ env_file env)]
               @ concat (map (\<lambda>(k, v). [SetEnv k v, Print (''  '' @ k @ ''='' @ v)]) loaded)
               @ [Print (check_mark @ '' Environment variables set'')])"
    by (intro inject_wellformed [where lines = lines]) auto
qed

theorem env_file_injection_witness:
  "malformed_line ''BROKEN''
   \<and> inject_environment_variables broken_env_world ''dev'' [] =
       (Inl (Raised (ValueError ''not enough values to unpack (expected 2, got 1)'')),
        [Print ''\<newline>=== Setting Environment Variables for dev ==='',
         Print ''Loading environment from .env.dev''])
   \<and> fst (main_with_outputs broken_env_world dev_args
            [(''S3BucketName'', ''site-bucket''), (''DistributionId'', ''E1ABC'')] [])
       = Inl (Raised (ValueError ''not enough values to unpack (expected 2, got 1)''))
   \<and> \<not> malformed_line ''NODE_ENV=test'' \<and> \<not> malformed_line ''# a comment''
   \<and> (\<exists>env_vars. load_env_lines [''NODE_ENV=test'', ''# a comment''] (default_env_vars ''dev'')
                    = Inr env_vars
         \<and> map_of env_vars ''NODE_ENV'' = Some ''test''
         \<and> map_of env_vars ''VITE_AWS_REGION'' = Some ''us-west-2'')
   \<and> load_env_lines [''NODE_ENV=test'', ''# a comment''] (default_env_vars ''dev'')
       = Inr [(''VITE_AWS_REGION'', ''us-west-2''), (''NODE_ENV'', ''test'')]
   \<and> inject_environment_variables override_env_world ''dev'' [] =
       (Inr (),
        [Print ''\<newline>=== Setting Environment Variables for dev ==='',
         Print ''Loading environment from .env.dev'',
         SetEnv ''VITE_AWS_REGION'' ''us-west-2'', Print ''  VITE_AWS_REGION=us-west-2'',
         SetEnv ''NODE_ENV'' ''test'', Print ''  NODE_ENV=test'',
         Print (check_mark @ '' Environment variables set'')])"
proof -
  have bad: "malformed_line ''BROKEN''"
    by (simp add: malformed_line_def content_line_def strip_def is_space_def)
  have ok: "\<not> malformed_line ''NODE_ENV=test''" "\<not> malformed_line ''# a comment''"
    by (simp_all add: malformed_line_def content_line_def strip_def is_space_def)
  have a: "inject_environment_variables broken_env_world ''dev'' [] =
       (Inl unpack_error,
        [Print ''\<newline>=== Setting Environment Variables for dev ==='',
         Print ''Loading environment from .env.dev''])
     \<and> fst (main_with_outputs broken_env_world dev_args
            [(''S3BucketName'', ''site-bucket''), (''DistributionId'', ''E1ABC'')] [])
       = Inl unpack_error"
    using env_file_injection
            [where w = broken_env_world and env = "''dev''"
               and lines = "[''NODE_ENV=test'', ''# a comment'', ''BROKEN'']" and tr = "[]"
               and args = dev_args
               and outputs = "[(''S3BucketName'', ''site-bucket''), (''DistributionId'', ''E1ABC'')]",
             THEN conjunct1] bad
    by (simp add: broken_env_world_def quiet_world_def dev_args_def env_file_def
          lacks_required_key_def truthy_def)
  have b: "\<exists>env_vars. load_env_lines [''NODE_ENV=test'', ''# a comment''] (default_env_vars ''dev'')
                    = Inr env_vars
         \<and> map_of env_vars ''NODE_ENV'' = Some ''test''
         \<and> map_of env_vars ''VITE_AWS_REGION'' = Some ''us-west-2''"
  proof -
    have "\<not> (\<exists>raw \<in> set [''NODE_ENV=test'', ''# a comment'']. malformed_line raw)"
      using ok by simp
    with env_file_injection
            [where env = "''dev''" and lines = "[''NODE_ENV=test'', ''# a comment'']",
             THEN conjunct2, THEN conjunct1]
    obtain env_vars where
      loaded: "load_env_lines [''NODE_ENV=test'', ''# a comment''] (default_env_vars ''dev'') = Inr env_vars"
      and look: "\<And>k. map_of env_vars k =
                  (case map_of (rev (env_file_assignments [''NODE_ENV=test'', ''# a comment''])) k of
                     Some v \<Rightarrow> Some v
                   | None \<Rightarrow> map_of (default_env_vars ''dev'') k)"
      by blast
    have "map_of env_vars ''NODE_ENV'' = Some ''test''"
      "map_of env_vars ''VITE_AWS_REGION'' = Some ''us-west-2''"
      by (simp_all add: look default_env_vars_def content_line_def strip_def is_space_def)
    with loaded show ?thesis by blast
  qed
  have c: "load_env_lines [''NODE_ENV=test'', ''# a comment''] (default_env_vars ''dev'')
       = Inr [(''VITE_AWS_REGION'', ''us-west-2''), (''NODE_ENV'', ''test'')]"
    by (simp add: default_env_vars_def strip_def is_space_def split_eq1_def)
  have d: "inject_environment_variables override_env_world ''dev'' [] =
       (Inr (),
        [] @ [Print (''\<newline>=== Setting Environment Variables for '' @ ''dev'' @ '' ===''),
              Print (''Loading environment from '' @ env_file ''dev'')]
           @ concat (map (\<lambda>(k, v). [SetEnv k v, Print (''  '' @ k @ ''='' @ v)])
                       [(''VITE_AWS_REGION'', ''us-west-2''), (''NODE_ENV'', ''test'')])
           @ [Print (check_mark @ '' Environment variables set'')])"
    using env_file_injection
            [where w = override_env_world and env = "''dev''"
               and lines = "[''NODE_ENV=test'', ''# a comment'']" and tr = "[]"
               and loaded = "[(''VITE_AWS_REGION'', ''us-west-2''), (''NODE_ENV'', ''test'')]",
             THEN conjunct2, THEN conjunct2] c
    by (simp add: override_env_world_def quiet_world_def putenv_ok_def)
  from bad ok a b c d show ?thesis by (simp add: unpack_error_def env_file_def)
qed

text \<open>
  C4. \<^verbatim>\<open>wait_for_invalidation\<close> is total. In every environment it makes at most 30 status
  queries and sleeps at most 300 seconds in all. At any iteration, a query that reports
  \<^verbatim>\<open>Completed\<close> makes the loop return at once, with no further query or sleep. When every
  query succeeds and none reports \<^verbatim>\<open>Completed\<close>, the loop makes exactly 30 queries, sleeps
  30 times 10 seconds, logs the timeout and leaves with \<^verbatim>\<open>sys.exit(1)\<close>.
\<close>

theorem invalidation_wait_is_bounded:
  "(\<exists>evs. snd (wait_for_invalidation w self d i tr) = tr @ evs
        \<and> poll_count evs \<le> 30 \<and> total_sleep evs \<le> max_wait_time)
   \<and> (elapsed < max_wait_time \<and> fst (poll_status w self d i tr) = Inr ''Completed''
        \<longrightarrow> wait_loop w self d i elapsed tr =
              (Inr (), snd (poll_status w self d i tr)
                         @ [Log ''INFO'' ''Invalidation completed successfully'']))
   \<and> ((\<forall>t. \<exists>status t'. poll_status w self d i t = (Inr status, t') \<and> status \<noteq> ''Completed'')
        \<longrightarrow> (\<exists>evs. wait_for_invalidation w self d i tr =
                     (Inl (SystemExit 1),
                      tr @ evs @ [Log ''ERROR'' ''Invalidation did not complete within 300 seconds''])
                \<and> poll_count evs = 30 \<and> total_sleep evs = max_wait_time))"
proof (intro conjI impI)
  let ?tr = "tr @ [Log ''INFO'' (''Waiting for invalidation '' @ i @ '' to complete...'')]"
  have start: "wait_for_invalidation w self d i tr = wait_loop w self d i 0 ?tr"
    by (simp add: wait_for_invalidation_def prog_defs)
  have budget: "poll_interval * polls_left 0 = max_wait_time"
    by (simp add: polls_left_0 poll_interval_def max_wait_time_def)
  from wait_loop_bounded [of w self d i 0 ?tr]
  obtain evs where evs: "snd (wait_loop w self d i 0 ?tr) = ?tr @ evs"
    "poll_count evs \<le> polls_left 0" "total_sleep evs \<le> poll_interval * polls_left 0"
    by blast
  have "snd (wait_for_invalidation w self d i tr)
          = tr @ (Log ''INFO'' (''Waiting for invalidation '' @ i @ '' to complete...'') # evs)"
    using evs(1) start by simp
  moreover have "poll_count (Log ''INFO'' (''Waiting for invalidation '' @ i @ '' to complete...'') # evs) \<le> 30"
    using evs(2) by (simp add: polls_left_0)
  moreover have "total_sleep (Log ''INFO'' (''Waiting for invalidation '' @ i @ '' to complete...'') # evs)
                   \<le> max_wait_time"
    using evs(3) by (simp add: budget)
  ultimately show "\<exists>evs. snd (wait_for_invalidation w self d i tr) = tr @ evs
        \<and> poll_count evs \<le> 30 \<and> total_sleep evs \<le> max_wait_time"
    by blast
  {
    assume never: "\<forall>t. \<exists>status t'. poll_status w self d i t = (Inr status, t') \<and> status \<noteq> ''Completed''"
    have shown: "str_nat max_wait_time = ''300''"
      by code_simp
    from wait_loop_never_completed [of w self d i 0 ?tr] never
    obtain evs' where evs':
      "wait_loop w self d i 0 ?tr =
         (Inl (SystemExit 1),
          ?tr @ evs' @ [Log ''ERROR'' (''Invalidation did not complete within '' @ str_nat max_wait_time @ '' seconds'')])"
      "poll_count evs' = polls_left 0" "total_sleep evs' = poll_interval * polls_left 0"
      by blast
    have "wait_for_invalidation w self d i tr =
            (Inl (SystemExit 1),
             tr @ (Log ''INFO'' (''Waiting for invalidation '' @ i @ '' to complete...'') # evs')
                @ [Log ''ERROR'' ''Invalidation did not complete within 300 seconds''])"
      using evs'(1) start by (simp add: shown)
    moreover have "poll_count (Log ''INFO'' (''Waiting for invalidation '' @ i @ '' to complete...'') # evs') = 30"
      using evs'(2) by (simp add: polls_left_0)
    moreover have "total_sleep (Log ''INFO'' (''Waiting for invalidation '' @ i @ '' to complete...'') # evs')
                     = max_wait_time"
      using evs'(3) by (simp add: budget)
    ultimately show "\<exists>evs. wait_for_invalidation w self d i tr =
                     (Inl (SystemExit 1),
                      tr @ evs @ [Log ''ERROR'' ''Invalidation did not complete within 300 seconds''])
                \<and> poll_count evs = 30 \<and> total_sleep evs = max_wait_time"
      by blast
  }
next
  assume "elapsed < max_wait_time \<and> fst (poll_status w self d i tr) = Inr ''Completed''"
  then show "wait_loop w self d i elapsed tr =
              (Inr (), snd (poll_status w self d i tr)
                         @ [Log ''INFO'' ''Invalidation completed successfully''])"
    by (intro wait_loop_completed) simp_all
qed

theorem invalidation_wait_is_bounded_witness:
  "fst (poll_status quiet_world dev_deployer ''E1ABC'' ''I2XYZ'' []) = Inr ''Completed''
   \<and> fst (wait_loop quiet_world dev_deployer ''E1ABC'' ''I2XYZ'' 0 []) = Inr ()
   \<and> fst (poll_status in_progress_world dev_deployer ''E1ABC'' ''I2XYZ'' []) = Inr ''InProgress''
   \<and> fst (wait_for_invalidation in_progress_world dev_deployer ''E1ABC'' ''I2XYZ'' [])
       = Inl (SystemExit 1)
   \<and> poll_count (snd (wait_for_invalidation in_progress_world dev_deployer ''E1ABC'' ''I2XYZ'' []))
       = 30
   \<and> total_sleep (snd (wait_for_invalidation in_progress_world dev_deployer ''E1ABC'' ''I2XYZ'' []))
       = 300"
proof -
  have completed: "fst (poll_status quiet_world dev_deployer ''E1ABC'' ''I2XYZ'' []) = Inr ''Completed''"
    by (simp add: poll_status_def WebDeployer_run_command_def prog_defs subprocess_check_def
          quiet_world_def ok_result_def truthy_def)
  have a: "fst (wait_loop quiet_world dev_deployer ''E1ABC'' ''I2XYZ'' 0 []) = Inr ()"
    using invalidation_wait_is_bounded
            [of quiet_world dev_deployer "''E1ABC''" "''I2XYZ''" "[]" 0, THEN conjunct2, THEN conjunct1]
          completed
    by (simp add: max_wait_time_def)
  have pending: "poll_status in_progress_world dev_deployer ''E1ABC'' ''I2XYZ'' t =
      (Inr ''InProgress'',
       t @ [Log ''INFO'' (''Running: '' @ join_sp (get_invalidation_cmd dev_deployer ''E1ABC'' ''I2XYZ'')),
            Exec (get_invalidation_cmd dev_deployer ''E1ABC'' ''I2XYZ'') None True,
            Log ''INFO'' ''Invalidation status: InProgress''])" for t
    by (simp add: poll_status_def WebDeployer_run_command_def prog_defs subprocess_check_def
          in_progress_world_def quiet_world_def ok_result_def truthy_def)
  have never: "\<forall>t. \<exists>status t'. poll_status in_progress_world dev_deployer ''E1ABC'' ''I2XYZ'' t
                   = (Inr status, t') \<and> status \<noteq> ''Completed''"
    by (simp add: pending)
  from invalidation_wait_is_bounded
         [of in_progress_world dev_deployer "''E1ABC''" "''I2XYZ''" "[]" 0,
          THEN conjunct2, THEN conjunct2] never
  obtain evs where evs:
    "wait_for_invalidation in_progress_world dev_deployer ''E1ABC'' ''I2XYZ'' [] =
       (Inl (SystemExit 1),
        [] @ evs @ [Log ''ERROR'' ''Invalidation did not complete within 300 seconds''])"
    "poll_count evs = 30" "total_sleep evs = max_wait_time"
    by blast
  from completed a evs show ?thesis
    by (simp add: pending max_wait_time_def)
qed

end
